theory Spec2Isabelle
  imports Complex_Main "HOL-Library.AList" "HOL-Library.Log_Nat" "HOL-Library.Word"
begin

section \<open>Go values held in an \<open>interface{}\<close>\<close>

text \<open>
  The codec of wdydoc works on \<open>map[string]interface{}\<close>. The dynamic values that occur are
  modelled by \<open>gval\<close>: \<open>GNil\<close> is the nil interface (what \<open>m[key]\<close> yields for a missing
  key), \<open>GInt\<close> a Go \<open>int\<close>, \<open>GInt64\<close> an \<open>int64\<close>, \<open>GFloat64\<close> a finite \<open>float64\<close>
  (given by its rational value), \<open>GStrings\<close> a \<open>[]string\<close>, \<open>GSlice\<close> a \<open>[]interface{}\<close>
  and \<open>GMap\<close> a \<open>map[string]interface{}\<close>. A map is an association list whose lookup is
  \<open>map_of\<close>; \<open>m[k] = v\<close> is \<open>AList.update k v m\<close> and \<open>delete(m, k)\<close> is \<open>AList.delete k m\<close>.
  Strings are byte lists, as Go's are. A nil slice and an empty slice are both \<open>[]\<close>.
\<close>

datatype gval =
    GNil
  | GBool bool
  | GString string
  | GInt int
  | GInt64 int
  | GFloat64 rat
  | GStrings "string list"
  | GSlice "gval list"
  | GMap "(string \<times> gval) list"

type_synonym jmap = "(string \<times> gval) list"

text \<open>A panic aborts the computation: every function that can panic returns \<open>panic + 'a\<close>.\<close>

datatype panic =
    UnknownFormatType string
  | InterfaceConversion string
  | SliceBoundsOutOfRange

subsection \<open>The constants of util.go\<close>

definition typeAttrName :: string where "typeAttrName = ''type''"
definition WorkspaceType :: string where "WorkspaceType = ''workspace''"
definition DocumentType :: string where "DocumentType = ''document''"
definition ChapterType :: string where "ChapterType = ''chapter''"
definition AuthorType :: string where "AuthorType = ''author''"
definition NewlineType :: string where "NewlineType = ''newline''"
definition NewpageType :: string where "NewpageType = ''newpage''"
definition ItalicType :: string where "ItalicType = ''italic''"
definition BoldType :: string where "BoldType = ''bold''"
definition UnderlineType :: string where "UnderlineType = ''underline''"
definition CodeType :: string where "CodeType = ''code''"
definition ImageType :: string where "ImageType = ''image''"
definition TOCType :: string where "TOCType = ''toc''"
definition TitlepageType :: string where "TitlepageType = ''titlepage''"
definition TextType :: string where "TextType = ''text''"

lemmas type_names =
  typeAttrName_def WorkspaceType_def DocumentType_def ChapterType_def AuthorType_def
  NewlineType_def NewpageType_def ItalicType_def BoldType_def UnderlineType_def CodeType_def
  ImageType_def TOCType_def TitlepageType_def TextType_def

text \<open>The fourteen discriminators that the switch of \<open>fromJson\<close> knows, in its order.\<close>

definition registered_types :: "string list" where
  "registered_types =
     [WorkspaceType, DocumentType, AuthorType, ChapterType, TextType, TOCType, NewlineType,
      ItalicType, BoldType, UnderlineType, CodeType, ImageType, TitlepageType, NewpageType]"

subsection \<open>The helpers of util.go\<close>

text \<open>\<open>assertObjList\<close>: the maps among the elements of a \<open>[]interface{}\<close>; anything else,
  also a missing key, gives no element.\<close>

fun assertObjList :: "gval option \<Rightarrow> jmap list" where
  "assertObjList (Some (GSlice elems)) =
     concat (map (\<lambda>o'. case o' of GMap m \<Rightarrow> [m] | _ \<Rightarrow> []) elems)"
| "assertObjList _ = []"

definition optString :: "jmap \<Rightarrow> string \<Rightarrow> string" where
  "optString m key = (case map_of m key of Some (GString str) \<Rightarrow> str | _ \<Rightarrow> [])"

definition optStringSlice :: "jmap \<Rightarrow> string \<Rightarrow> string list" where
  "optStringSlice m key = (case map_of m key of Some (GStrings str) \<Rightarrow> str | _ \<Rightarrow> [])"

text \<open>
  The conversion \<open>int(f)\<close> of a \<open>float64\<close> truncates towards zero. Go leaves the result
  open when the truncated value does not fit the 64-bit \<open>int\<close>; \<open>int_of_float64\<close> then gives
  the smallest \<open>int\<close>, which is what amd64 computes.
\<close>

definition MinInt :: int where "MinInt = - (2 ^ 63)"
definition MaxInt :: int where "MaxInt = 2 ^ 63 - 1"

definition int_of_float64 :: "rat \<Rightarrow> int" where
  "int_of_float64 f =
     (let t = (if 0 \<le> f then \<lfloor>f\<rfloor> else \<lceil>f\<rceil>)
      in if MinInt \<le> t \<and> t \<le> MaxInt then t else MinInt)"

definition optInt :: "jmap \<Rightarrow> string \<Rightarrow> int" where
  "optInt m key =
     (case map_of m key of
        Some (GInt i) \<Rightarrow> i
      | Some (GInt64 i) \<Rightarrow> i
      | Some (GFloat64 i) \<Rightarrow> int_of_float64 i
      | _ \<Rightarrow> 0)"

text \<open>\<open>optSet\<close>: a nil value deletes the key, the empty string deletes it, another string is
  stored, and a value of any other type leaves the map as it is.\<close>

definition optSet :: "jmap \<Rightarrow> string \<Rightarrow> gval \<Rightarrow> jmap" where
  "optSet m key val =
     (let m1 = (if val = GNil then AList.delete key m else m)
      in case val of
           GString s \<Rightarrow> if s = [] then AList.delete key m1 else AList.update key (GString s) m1
         | _ \<Rightarrow> m1)"

text \<open>The type assertion \<open>m[key].(string)\<close> without the comma-ok form panics unless the value
  is a string.\<close>

definition assert_string :: "gval option \<Rightarrow> panic + string" where
  "assert_string v =
     (case v of
        Some (GString s) \<Rightarrow> Inr s
      | _ \<Rightarrow> Inl (InterfaceConversion ''interface {} is not string''))"

section \<open>The document model (model.go)\<close>

text \<open>
  Every struct that implements the interface \<open>Discriminator\<close> is a constructor of the
  datatype: \<open>Workspace\<close>, \<open>Document\<close>, \<open>Chapter\<close>, \<open>Span\<close>, \<open>Code\<close>, \<open>Image\<close>, the two
  unexported \<open>defaultType\<close> and \<open>defaultBody\<close> with their \<open>name\<close> field, and \<open>AuthorRef\<close>
  for a \<open>*Author\<close> held as a \<open>Discriminator\<close>. The fields keep the order of the structs.
\<close>

datatype Author = Author (Firstname: string) (Lastname: string) (EMail: string)

datatype Discriminator =
    Workspace (Format: int) (Version: string) (Title: string) (Resources: "Discriminator list")
  | Document (Id: string) (Title: string) (Authors: "Author list") (Body: "Discriminator list")
  | AuthorRef Author
  | Chapter (Title: string) (Level: int) (Body: "Discriminator list")
  | Span (Value: string)
  | Code (Hint: string) (Lines: "string list")
  | Image (Src: string) (Width: string) (Height: string)
  | defaultType (name: string)
  | defaultBody (name: string) (Body: "Discriminator list")

fun Type :: "Discriminator \<Rightarrow> string" where
  "Type (Workspace _ _ _ _) = WorkspaceType"
| "Type (Document _ _ _ _) = DocumentType"
| "Type (AuthorRef _) = AuthorType"
| "Type (Chapter _ _ _) = ChapterType"
| "Type (Span _) = TextType"
| "Type (Code _ _) = CodeType"
| "Type (Image _ _ _) = ImageType"
| "Type (defaultType n) = n"
| "Type (defaultBody n _) = n"

subsection \<open>The constructors of the markers and groups\<close>

definition Newpage :: Discriminator where "Newpage = defaultType NewpageType"
definition Newline :: Discriminator where "Newline = defaultType NewlineType"
definition TOC :: Discriminator where "TOC = defaultType TOCType"
definition Italic :: "Discriminator list \<Rightarrow> Discriminator" where
  "Italic body = defaultBody ItalicType body"
definition Bold :: "Discriminator list \<Rightarrow> Discriminator" where
  "Bold body = defaultBody BoldType body"
definition Underline :: "Discriminator list \<Rightarrow> Discriminator" where
  "Underline body = defaultBody UnderlineType body"
definition TitlePage :: "Discriminator list \<Rightarrow> Discriminator" where
  "TitlePage body = defaultBody TitlepageType body"
definition Text :: "string \<Rightarrow> Discriminator" where
  "Text str = Span str"

subsection \<open>Encoding: the \<open>toJson\<close> methods and the function \<open>toJson\<close> on slices\<close>

definition Author_toJson :: "Author \<Rightarrow> jmap" where
  "Author_toJson a =
     (let m = [];
          m = AList.update typeAttrName (GString AuthorType) m;
          m = AList.update ''firstname'' (GString (Firstname a)) m;
          m = AList.update ''lastname'' (GString (Lastname a)) m;
          m = AList.update ''email'' (GString (EMail a)) m
      in m)"

fun toJson :: "Discriminator \<Rightarrow> jmap" where
  "toJson (Workspace format version title resources) =
     (let m = [];
          m = AList.update typeAttrName (GString WorkspaceType) m;
          m = AList.update ''title'' (GString title) m;
          m = AList.update ''version'' (GString version) m;
          m = AList.update ''format'' (GInt format) m;
          m = AList.update ''resources'' (GSlice (map (\<lambda>item. GMap (toJson item)) resources)) m
      in m)"
| "toJson (Document ident title authors body) =
     (let m = [];
          m = AList.update typeAttrName (GString DocumentType) m;
          m = optSet m ''id'' (GString ident);
          m = AList.update ''title'' (GString title) m;
          m = AList.update ''authors'' (GSlice (map (\<lambda>item. GMap (Author_toJson item)) authors)) m;
          m = AList.update ''body'' (GSlice (map (\<lambda>item. GMap (toJson item)) body)) m
      in m)"
| "toJson (AuthorRef a) = Author_toJson a"
| "toJson (Chapter title level body) =
     (let m = [];
          m = AList.update typeAttrName (GString ChapterType) m;
          m = AList.update ''title'' (GString title) m;
          m = AList.update ''level'' (GInt level) m;
          m = AList.update ''body'' (GSlice (map (\<lambda>item. GMap (toJson item)) body)) m
      in m)"
| "toJson (Span v) =
     (let m = [];
          m = AList.update typeAttrName (GString TextType) m;
          m = AList.update ''value'' (GString v) m
      in m)"
| "toJson (Code hint lines) =
     (let m = [];
          m = AList.update typeAttrName (GString CodeType) m;
          m = AList.update ''hint'' (GString hint) m;
          m = AList.update ''lines'' (GStrings lines) m
      in m)"
| "toJson (Image src width height) =
     (let m = [];
          m = AList.update typeAttrName (GString ImageType) m;
          m = AList.update ''src'' (GString src) m;
          m = AList.update ''width'' (GString width) m;
          m = AList.update ''height'' (GString height) m
      in m)"
| "toJson (defaultType n) =
     (let m = [];
          m = AList.update typeAttrName (GString n) m
      in m)"
| "toJson (defaultBody n body) =
     (let m = [];
          m = AList.update typeAttrName (GString n) m;
          m = AList.update ''body'' (GSlice (map (\<lambda>item. GMap (toJson item)) body)) m
      in m)"

text \<open>The function \<open>toJson\<close> of util.go, on a slice of nodes.\<close>

definition toJson_slice :: "Discriminator list \<Rightarrow> gval" where
  "toJson_slice genericSlice = GSlice (map (\<lambda>item. GMap (toJson item)) genericSlice)"

subsection \<open>Decoding: \<open>fromJson\<close> and the \<open>fromJson\<close> methods\<close>

text \<open>
  The loop \<open>for _, obj := range assertObjList(...) { xs = append(xs, fromJson(obj)) }\<close>:
  the elements are decoded in order and the first panic ends the loop.
\<close>

fun fromJson_each :: "(jmap \<Rightarrow> panic + 'a) \<Rightarrow> jmap list \<Rightarrow> panic + 'a list" where
  "fromJson_each f [] = Inr []"
| "fromJson_each f (obj # objs) =
     (case f obj of
        Inl p \<Rightarrow> Inl p
      | Inr x \<Rightarrow> (case fromJson_each f objs of Inl p \<Rightarrow> Inl p | Inr xs \<Rightarrow> Inr (x # xs)))"

lemma fromJson_each_cong [fundef_cong]:
  "xs = ys \<Longrightarrow> (\<And>x. x \<in> set ys \<Longrightarrow> f x = g x) \<Longrightarrow> fromJson_each f xs = fromJson_each g ys"
  by (induction ys arbitrary: xs) (auto split: sum.splits)

text \<open>The type assertion \<open>fromJson(obj).(*Author)\<close> of \<open>Document.fromJson\<close>.\<close>

definition assert_Author :: "panic + Discriminator \<Rightarrow> panic + Author" where
  "assert_Author r =
     (case r of
        Inl p \<Rightarrow> Inl p
      | Inr (AuthorRef a) \<Rightarrow> Inr a
      | Inr _ \<Rightarrow> Inl (InterfaceConversion ''Discriminator is not *Author''))"

text \<open>
  The methods that decode children take the function \<open>fromJson\<close> as their first argument
  \<open>dec\<close>. Each assigns the fields in the order of the source, so the first panic is the one
  the source raises.
\<close>

definition Workspace_fromJson :: "(jmap \<Rightarrow> panic + Discriminator) \<Rightarrow> jmap \<Rightarrow> panic + Discriminator" where
  "Workspace_fromJson dec m =
     (case assert_string (map_of m ''title'') of
        Inl p \<Rightarrow> Inl p
      | Inr title \<Rightarrow>
          (case assert_string (map_of m ''version'') of
             Inl p \<Rightarrow> Inl p
           | Inr version \<Rightarrow>
               (let format = optInt m ''format''
                in case fromJson_each dec (assertObjList (map_of m ''resources'')) of
                     Inl p \<Rightarrow> Inl p
                   | Inr resources \<Rightarrow> Inr (Workspace format version title resources))))"

definition Document_fromJson :: "(jmap \<Rightarrow> panic + Discriminator) \<Rightarrow> jmap \<Rightarrow> panic + Discriminator" where
  "Document_fromJson dec m =
     (let title = optString m ''title'';
          ident = optString m ''id''
      in case fromJson_each (\<lambda>obj. assert_Author (dec obj)) (assertObjList (map_of m ''authors'')) of
           Inl p \<Rightarrow> Inl p
         | Inr authors \<Rightarrow>
             (case fromJson_each dec (assertObjList (map_of m ''body'')) of
                Inl p \<Rightarrow> Inl p
              | Inr body \<Rightarrow> Inr (Document ident title authors body)))"

definition Author_fromJson :: "jmap \<Rightarrow> panic + Author" where
  "Author_fromJson m =
     (case assert_string (map_of m ''firstname'') of
        Inl p \<Rightarrow> Inl p
      | Inr firstname \<Rightarrow>
          (case assert_string (map_of m ''lastname'') of
             Inl p \<Rightarrow> Inl p
           | Inr lastname \<Rightarrow>
               (case assert_string (map_of m ''email'') of
                  Inl p \<Rightarrow> Inl p
                | Inr email \<Rightarrow> Inr (Author firstname lastname email))))"

definition Chapter_fromJson :: "(jmap \<Rightarrow> panic + Discriminator) \<Rightarrow> jmap \<Rightarrow> panic + Discriminator" where
  "Chapter_fromJson dec m =
     (let title = optString m ''title'';
          level = optInt m ''level''
      in case fromJson_each dec (assertObjList (map_of m ''body'')) of
           Inl p \<Rightarrow> Inl p
         | Inr body \<Rightarrow> Inr (Chapter title level body))"

definition Span_fromJson :: "jmap \<Rightarrow> Discriminator" where
  "Span_fromJson m = Span (optString m ''value'')"

definition Code_fromJson :: "jmap \<Rightarrow> Discriminator" where
  "Code_fromJson m = Code (optString m ''hint'') (optStringSlice m ''lines'')"

definition Image_fromJson :: "jmap \<Rightarrow> Discriminator" where
  "Image_fromJson m = Image (optString m ''src'') (optString m ''width'') (optString m ''height'')"

text \<open>\<open>defaultType.fromJson\<close> reads nothing: the receiver, made by \<open>TOC()\<close>, \<open>Newline()\<close> or
  \<open>Newpage()\<close>, is returned as it is. \<open>defaultBody.fromJson\<close> replaces the body of the receiver.\<close>

definition defaultType_fromJson :: "Discriminator \<Rightarrow> jmap \<Rightarrow> Discriminator" where
  "defaultType_fromJson d m = d"

definition defaultBody_fromJson ::
  "(jmap \<Rightarrow> panic + Discriminator) \<Rightarrow> Discriminator \<Rightarrow> jmap \<Rightarrow> panic + Discriminator" where
  "defaultBody_fromJson dec d m =
     (case fromJson_each dec (assertObjList (map_of m ''body'')) of
        Inl p \<Rightarrow> Inl p
      | Inr body \<Rightarrow> Inr (defaultBody (name d) body))"

lemma Workspace_fromJson_cong [fundef_cong]:
  "m = m' \<Longrightarrow> (\<And>x. x \<in> set (assertObjList (map_of m' ''resources'')) \<Longrightarrow> f x = g x)
   \<Longrightarrow> Workspace_fromJson f m = Workspace_fromJson g m'"
  unfolding Workspace_fromJson_def
  by (simp cong: fromJson_each_cong split: sum.splits)

lemma Document_fromJson_cong [fundef_cong]:
  "m = m' \<Longrightarrow> (\<And>x. x \<in> set (assertObjList (map_of m' ''authors'')) \<Longrightarrow> f x = g x)
   \<Longrightarrow> (\<And>x. x \<in> set (assertObjList (map_of m' ''body'')) \<Longrightarrow> f x = g x)
   \<Longrightarrow> Document_fromJson f m = Document_fromJson g m'"
proof -
  assume m: "m = m'"
    and a: "\<And>x. x \<in> set (assertObjList (map_of m' ''authors'')) \<Longrightarrow> f x = g x"
    and b: "\<And>x. x \<in> set (assertObjList (map_of m' ''body'')) \<Longrightarrow> f x = g x"
  have 1: "fromJson_each (\<lambda>obj. assert_Author (f obj)) (assertObjList (map_of m' ''authors''))
         = fromJson_each (\<lambda>obj. assert_Author (g obj)) (assertObjList (map_of m' ''authors''))"
    by (rule fromJson_each_cong) (simp_all add: a)
  have 2: "fromJson_each f (assertObjList (map_of m' ''body''))
         = fromJson_each g (assertObjList (map_of m' ''body''))"
    by (rule fromJson_each_cong) (simp_all add: b)
  show ?thesis
    unfolding Document_fromJson_def m 1 2 ..
qed

lemma Chapter_fromJson_cong [fundef_cong]:
  "m = m' \<Longrightarrow> (\<And>x. x \<in> set (assertObjList (map_of m' ''body'')) \<Longrightarrow> f x = g x)
   \<Longrightarrow> Chapter_fromJson f m = Chapter_fromJson g m'"
  unfolding Chapter_fromJson_def
  by (simp cong: fromJson_each_cong split: sum.splits)

lemma defaultBody_fromJson_cong [fundef_cong]:
  "m = m' \<Longrightarrow> d = d' \<Longrightarrow> (\<And>x. x \<in> set (assertObjList (map_of m' ''body'')) \<Longrightarrow> f x = g x)
   \<Longrightarrow> defaultBody_fromJson f d m = defaultBody_fromJson g d' m'"
  unfolding defaultBody_fromJson_def
  by (simp cong: fromJson_each_cong split: sum.splits)

text \<open>A child map is smaller than the map that holds it: the measure of \<open>fromJson\<close>.\<close>

lemma size_map_of:
  "map_of m k = Some v \<Longrightarrow> size v < Suc (size_list (size_prod (\<lambda>x. 0) size) m)"
  by (induction m) (auto split: if_splits)

lemma size_assertObjList:
  "x \<in> set (assertObjList (map_of m k))
   \<Longrightarrow> size_list (size_prod (\<lambda>x. 0) size) x < size_list (size_prod (\<lambda>x. 0) size) m"
proof -
  assume x: "x \<in> set (assertObjList (map_of m k))"
  then obtain elems where s: "map_of m k = Some (GSlice elems)"
    by (cases "map_of m k" rule: assertObjList.cases) auto
  with x have "GMap x \<in> set elems"
    by (auto split: gval.splits)
  then have "size (GMap x) \<le> size_list size elems"
    by (induction elems) auto
  moreover from size_map_of [OF s] have "size_list size elems < size_list (size_prod (\<lambda>x. 0) size) m"
    by simp
  ultimately show ?thesis by simp
qed

function fromJson :: "jmap \<Rightarrow> panic + Discriminator" where
  "fromJson m =
     (let typeName = optString m typeAttrName
      in if typeName = WorkspaceType then Workspace_fromJson fromJson m
         else if typeName = DocumentType then Document_fromJson fromJson m
         else if typeName = AuthorType then map_sum id AuthorRef (Author_fromJson m)
         else if typeName = ChapterType then Chapter_fromJson fromJson m
         else if typeName = TextType then Inr (Span_fromJson m)
         else if typeName = TOCType then Inr (defaultType_fromJson TOC m)
         else if typeName = NewlineType then Inr (defaultType_fromJson Newline m)
         else if typeName = ItalicType then defaultBody_fromJson fromJson (Italic []) m
         else if typeName = BoldType then defaultBody_fromJson fromJson (Bold []) m
         else if typeName = UnderlineType then defaultBody_fromJson fromJson (Underline []) m
         else if typeName = CodeType then Inr (Code_fromJson m)
         else if typeName = ImageType then Inr (Image_fromJson m)
         else if typeName = TitlepageType then defaultBody_fromJson fromJson (TitlePage []) m
         else if typeName = NewpageType then Inr (defaultType_fromJson Newpage m)
         else Inl (UnknownFormatType typeName))"
  by pat_completeness auto
termination
  by (relation "measure (size_list (size_prod (\<lambda>x. 0) size))") (auto dest: size_assertObjList)

declare fromJson.simps [simp del]

text \<open>
  The trees that the exported constructors can build: a \<open>defaultType\<close> comes from \<open>TOC\<close>,
  \<open>Newline\<close> or \<open>Newpage\<close>, a \<open>defaultBody\<close> from \<open>Italic\<close>, \<open>Bold\<close>, \<open>Underline\<close> or
  \<open>TitlePage\<close>, since both structs are unexported.
\<close>

fun constructible :: "Discriminator \<Rightarrow> bool" where
  "constructible (Workspace _ _ _ resources) = list_all constructible resources"
| "constructible (Document _ _ _ body) = list_all constructible body"
| "constructible (Chapter _ _ body) = list_all constructible body"
| "constructible (defaultType n) = (n \<in> {TOCType, NewlineType, NewpageType})"
| "constructible (defaultBody n body) =
     (n \<in> {ItalicType, BoldType, UnderlineType, TitlepageType} \<and> list_all constructible body)"
| "constructible _ = True"

section \<open>Whole workspaces as JSON text (\<open>Marshal\<close>, \<open>Unmarshal\<close>)\<close>

text \<open>
  A JSON text is given by its syntax tree; a number literal by its value. \<open>json_Marshal\<close> is
  \<open>json.Marshal\<close> on the values above (it writes the keys of a map in sorted order, which no
  reader depends on; a string is taken to be valid UTF-8, which \<open>json.Marshal\<close> writes as it
  is).
\<close>

datatype json =
    JNull
  | JBool bool
  | JNumber rat
  | JString string
  | JArray "json list"
  | JObject "(string \<times> json) list"

text \<open>An \<open>error\<close> is one that the operating system or a library returned (\<open>ErrExternal\<close>), or
  one made by \<open>fmt.Errorf\<close>, given by its format, its string arguments and the error it
  wraps through \<open>%w\<close>.\<close>

datatype error =
    ErrExternal string
  | Errorf string "string list" "error option"

text \<open>
  \<open>float64_nearest q\<close> is \<open>q\<close> rounded to the \<open>float64\<close> format, ties to even: 53 significant
  bits, and below \<open>2 powi (- 1022)\<close> the multiples of \<open>2 powi (- 1074)\<close>, so that a small number
  becomes a subnormal value or zero. The largest finite \<open>float64\<close> is \<open>2 ^ 1024 - 2 ^ 971\<close>; a
  number whose magnitude is at least half a step above it rounds away from the finite values
  (\<open>float64_overflows\<close>), and \<open>strconv.ParseFloat\<close> returns a range error for it.
\<close>

definition floor_log2 :: "rat \<Rightarrow> int" where
  "floor_log2 q =
     (let (a, b) = quotient_of \<bar>q\<bar>;
          d = bitlen a - bitlen b
      in if 2 powi d \<le> \<bar>q\<bar> then d else d - 1)"

definition float64_nearest :: "rat \<Rightarrow> rat" where
  "float64_nearest q =
     (if q = 0 then 0
      else let ulp = 2 powi (max (floor_log2 q - 52) (- 1074));
               y = \<bar>q\<bar> / ulp;
               f = \<lfloor>y\<rfloor>;
               r = y - of_int f;
               m = (if 1 / 2 < r \<or> (r = 1 / 2 \<and> odd f) then f + 1 else f)
           in sgn q * of_int m * ulp)"

definition float64_overflows :: "rat \<Rightarrow> bool" where
  "float64_overflows q = (2 ^ 1024 - 2 ^ 970 \<le> \<bar>q\<bar>)"

fun json_Marshal :: "gval \<Rightarrow> json" where
  "json_Marshal GNil = JNull"
| "json_Marshal (GBool b) = JBool b"
| "json_Marshal (GString s) = JString s"
| "json_Marshal (GInt i) = JNumber (of_int i)"
| "json_Marshal (GInt64 i) = JNumber (of_int i)"
| "json_Marshal (GFloat64 f) = JNumber f"
| "json_Marshal (GStrings ss) = JArray (map JString ss)"
| "json_Marshal (GSlice vs) = JArray (map json_Marshal vs)"
| "json_Marshal (GMap kvs) = JObject (map (\<lambda>kv. (fst kv, json_Marshal (snd kv))) kvs)"

text \<open>
  \<open>json.Unmarshal\<close> works in two passes. It first scans the whole text and returns an error
  when arrays and objects are nested deeper than 10000 (\<open>json_depth\<close>, \<open>maxNestingDepth\<close>).
  It then stores the values (\<open>json_value\<close>, for a target of type \<open>interface{}\<close>): a number
  becomes a \<open>float64\<close>, an array a \<open>[]interface{}\<close>, an object a \<open>map[string]interface{}\<close> in
  which a later duplicate key overwrites an earlier one. A number that has no finite
  \<open>float64\<close> is stored as nil; the decoder saves the error, goes on, and returns the first
  error it saved when it is done (\<open>json_savedError\<close>, the first in the order of the text).
  The message of this error holds the literal, which is left out here.
\<close>

definition maxNestingDepth :: nat where "maxNestingDepth = 10000"

fun json_depth :: "json \<Rightarrow> nat" where
  "json_depth (JArray js) = Suc (foldr max (map json_depth js) 0)"
| "json_depth (JObject kvs) = Suc (foldr max (map (\<lambda>kv. json_depth (snd kv)) kvs) 0)"
| "json_depth _ = 0"

fun json_value :: "json \<Rightarrow> gval" where
  "json_value JNull = GNil"
| "json_value (JBool b) = GBool b"
| "json_value (JNumber q) = (if float64_overflows q then GNil else GFloat64 (float64_nearest q))"
| "json_value (JString s) = GString s"
| "json_value (JArray js) = GSlice (map json_value js)"
| "json_value (JObject kvs) = GMap (rev (map (\<lambda>kv. (fst kv, json_value (snd kv))) kvs))"

fun first_error :: "error option list \<Rightarrow> error option" where
  "first_error [] = None"
| "first_error (Some err # errs) = Some err"
| "first_error (None # errs) = first_error errs"

fun json_savedError :: "json \<Rightarrow> error option" where
  "json_savedError (JNumber q) =
     (if float64_overflows q
      then Some (ErrExternal ''json: cannot unmarshal number into Go value of type float64'')
      else None)"
| "json_savedError (JArray js) = first_error (map json_savedError js)"
| "json_savedError (JObject kvs) = first_error (map (\<lambda>kv. json_savedError (snd kv)) kvs)"
| "json_savedError _ = None"

text \<open>
  \<open>json_Unmarshal\<close> is \<open>json.Unmarshal(b, &tmp)\<close> for the map \<open>tmp\<close> of \<open>Unmarshal\<close>, on a
  syntactically valid JSON text \<open>b\<close>: the error it returns, or the map it leaves in \<open>tmp\<close>.
  A map target accepts an object and \<open>null\<close> (which leaves a nil map); every other value is an
  error.
\<close>

definition json_Unmarshal :: "json \<Rightarrow> error + jmap" where
  "json_Unmarshal b =
     (if maxNestingDepth < json_depth b then Inl (ErrExternal ''exceeded max depth'')
      else case b of
             JObject kvs \<Rightarrow>
               (case json_savedError b of
                  Some err \<Rightarrow> Inl err
                | None \<Rightarrow> Inr (rev (map (\<lambda>kv. (fst kv, json_value (snd kv))) kvs)))
           | JNull \<Rightarrow> Inr []
           | _ \<Rightarrow> Inl (ErrExternal ''json: cannot unmarshal into Go value of type map[string]interface {}''))"

text \<open>
  \<open>Marshal\<close> and \<open>Unmarshal\<close>. \<open>Unmarshal\<close> returns the error of \<open>json.Unmarshal\<close>, if any; it
  then calls \<open>Workspace.fromJson\<close> on the map without looking at its \<open>type\<close>. The result is
  \<open>Inl\<close> for a panic, \<open>Inr (Inl err)\<close> for a returned error and \<open>Inr (Inr w)\<close> for a returned
  workspace.
\<close>

definition Marshal :: "Discriminator \<Rightarrow> error + json" where
  "Marshal w = Inr (json_Marshal (GMap (toJson w)))"

definition Unmarshal :: "json \<Rightarrow> panic + (error + Discriminator)" where
  "Unmarshal b =
     (case json_Unmarshal b of
        Inl err \<Rightarrow> Inr (Inl err)
      | Inr tmp \<Rightarrow> (case Workspace_fromJson fromJson tmp of Inl p \<Rightarrow> Inl p | Inr w \<Rightarrow> Inr (Inr w)))"

text \<open>\<open>Unmarshal_of_Marshal\<close>: a workspace written by \<open>Marshal\<close> and read back by
  \<open>Unmarshal\<close>, as \<open>createModel\<close> of the tests does.\<close>

definition Unmarshal_of_Marshal :: "Discriminator \<Rightarrow> panic + (error + Discriminator)" where
  "Unmarshal_of_Marshal w = (case Marshal w of Inl err \<Rightarrow> Inr (Inl err) | Inr b \<Rightarrow> Unmarshal b)"

text \<open>
  For a JSON object: the member that decoding keeps for a key, and whether it is a string;
  \<open>json_accepted\<close> says that \<open>json.Unmarshal\<close> returns no error on a text. \<open>json_objects\<close> are
  the maps that \<open>assertObjList\<close> finds in a decoded array.
\<close>

definition json_member :: "(string \<times> json) list \<Rightarrow> string \<Rightarrow> json option" where
  "json_member kvs k = map_of (rev kvs) k"

definition is_json_string :: "json option \<Rightarrow> bool" where
  "is_json_string v = (case v of Some (JString s) \<Rightarrow> True | _ \<Rightarrow> False)"

definition json_accepted :: "json \<Rightarrow> bool" where
  "json_accepted b = (json_depth b \<le> maxNestingDepth \<and> json_savedError b = None)"

definition json_objects :: "json list \<Rightarrow> jmap list" where
  "json_objects js = assertObjList (Some (json_value (JArray js)))"

section \<open>Lookup of a document (\<open>Workspace.ById\<close>)\<close>

text \<open>\<open>ById_loop\<close> is the loop of \<open>ById\<close> over \<open>w.Resources\<close>; \<open>None\<close> is the nil result. The
  receiver of \<open>ById\<close> is a \<open>*Workspace\<close>; the second equation is for the values that Go's
  types exclude.\<close>

fun ById_loop :: "Discriminator list \<Rightarrow> string \<Rightarrow> Discriminator option" where
  "ById_loop [] ident = None"
| "ById_loop (r # rs) ident =
     (case r of
        Document i t as b \<Rightarrow> if i = ident then Some r else ById_loop rs ident
      | _ \<Rightarrow> ById_loop rs ident)"

fun ById :: "Discriminator \<Rightarrow> string \<Rightarrow> Discriminator option" where
  "ById (Workspace format version title resources) ident = ById_loop resources ident"
| "ById _ ident = None"

definition is_document_with_id :: "string \<Rightarrow> Discriminator \<Rightarrow> bool" where
  "is_document_with_id ident r = (case r of Document i t as b \<Rightarrow> i = ident | _ \<Rightarrow> False)"

section \<open>Paths and strings (the functions of \<open>path/filepath\<close> and \<open>strings\<close> that are called)\<close>

text \<open>
  The library functions are modelled by what they compute on Unix, where the separator is
  \<open>/\<close>. \<open>filepath_Clean\<close> works on the elements of the path: an empty element and \<open>.\<close> are
  dropped, \<open>..\<close> removes the element before it (at the root it is dropped, at the start of
  a relative path it is kept), and the empty result is \<open>.\<close>. \<open>filepath_Join\<close> ignores empty
  elements and cleans the result. \<open>filepath_Ext\<close> scans from the end, as the loop of the
  library does.
\<close>

definition Separator :: char where "Separator = CHR ''/''"

fun split_slash :: "string \<Rightarrow> string list" where
  "split_slash [] = [[]]"
| "split_slash (c # cs) =
     (if c = Separator then [] # split_slash cs
      else (case split_slash cs of x # xs \<Rightarrow> (c # x) # xs | [] \<Rightarrow> [[c]]))"

fun join_slash :: "string list \<Rightarrow> string" where
  "join_slash [] = []"
| "join_slash [x] = x"
| "join_slash (x # y # ys) = x @ Separator # join_slash (y # ys)"

definition clean_step :: "bool \<Rightarrow> string list \<Rightarrow> string \<Rightarrow> string list" where
  "clean_step rooted out elem =
     (if elem = [] \<or> elem = ''.'' then out
      else if elem = ''..'' then
        (if out \<noteq> [] \<and> last out \<noteq> ''..'' then butlast out
         else if rooted then out
         else out @ [''..''])
      else out @ [elem])"

definition filepath_Clean :: "string \<Rightarrow> string" where
  "filepath_Clean path =
     (if path = [] then ''.''
      else let rooted = (hd path = Separator);
               out = join_slash (foldl (clean_step rooted) [] (split_slash path))
           in if rooted then Separator # out
              else if out = [] then ''.'' else out)"

definition filepath_Join :: "string list \<Rightarrow> string" where
  "filepath_Join elem =
     (let es = filter (\<lambda>e. e \<noteq> []) elem
      in if es = [] then [] else filepath_Clean (join_slash es))"

definition filepath_Base :: "string \<Rightarrow> string" where
  "filepath_Base path =
     (if path = [] then ''.''
      else let p = rev (dropWhile (\<lambda>c. c = Separator) (rev path));
               p = rev (takeWhile (\<lambda>c. c \<noteq> Separator) (rev p))
           in if p = [] then [Separator] else p)"

definition filepath_Dir :: "string \<Rightarrow> string" where
  "filepath_Dir path = filepath_Clean (rev (dropWhile (\<lambda>c. c \<noteq> Separator) (rev path)))"

fun Ext_scan :: "string \<Rightarrow> string \<Rightarrow> string" where
  "Ext_scan [] suffix = []"
| "Ext_scan (c # cs) suffix =
     (if c = Separator then []
      else if c = CHR ''.'' then c # suffix
      else Ext_scan cs (c # suffix))"

definition filepath_Ext :: "string \<Rightarrow> string" where
  "filepath_Ext path = Ext_scan (rev path) []"

text \<open>
  \<open>strings_ToLower\<close> maps the upper-case ASCII letters to lower case and keeps every other
  byte. \<open>strings.ToLower\<close> also maps letters outside ASCII, but none of them to a letter of
  \<open>.gohtml\<close> or \<open>.tmpl\<close>, so the comparisons of \<open>NewFile\<close> come out the same.
\<close>

definition toLower_byte :: "char \<Rightarrow> char" where
  "toLower_byte c =
     (let n = (of_char c :: nat) in if 65 \<le> n \<and> n \<le> 90 then char_of (n + 32) else c)"

definition strings_ToLower :: "string \<Rightarrow> string" where
  "strings_ToLower s = map toLower_byte s"

definition strings_Join :: "string list \<Rightarrow> string \<Rightarrow> string" where
  "strings_Join elems sep = concat (case elems of [] \<Rightarrow> [] | x # xs \<Rightarrow> x # map (\<lambda>y. sep @ y) xs)"

definition strings_HasPrefix :: "string \<Rightarrow> string \<Rightarrow> bool" where
  "strings_HasPrefix s pre = (take (length pre) s = pre)"

definition strings_HasSuffix :: "string \<Rightarrow> string \<Rightarrow> bool" where
  "strings_HasSuffix s suf = (length suf \<le> length s \<and> drop (length s - length suf) s = suf)"

section \<open>The environment: file system, template engines and external tools\<close>

text \<open>
  Everything the build does outside the process is a call to the environment. A call is
  recorded in the trace (a \<open>call list\<close>, the latest call last) and its result is given by the
  environment \<open>env\<close> as a function of the trace so far and the arguments, so that the same
  call can have another result later. Every function with effects takes the trace and
  returns the new trace beside its result. A nil error is \<open>None\<close>.

  \<^item> \<open>os_Open\<close> followed by \<open>io_Write\<close> is \<open>os.OpenFile\<close> for reading and \<open>io.Copy\<close>: the bytes
    of the source, and then the write of these bytes to the open file \<open>out\<close>;
  \<open>Call_Write out bytes\<close> records what was written.
  \<^item> \<open>template_ParseFiles\<close> and \<open>template_ExecuteTemplate\<close> stand for both engines
    (\<open>html/template\<close>, \<open>text/template\<close>); the parsed templates live in the environment and a
    transformer keeps the name of its template.
  \<^item> \<open>filepath_Walk\<close> gives the tree that \<open>filepath.Walk\<close> finds: a file, a directory (with
    the error of reading it, if any, and its entries in lexical order) or an entry whose
    \<open>Lstat\<close> failed.
  \<^item> \<open>util_IsDir\<close>, \<open>util_CopyDir\<close> and \<open>util_CopyFile\<close> are the result of the three
    functions of util.go, which only call the operating system.
\<close>

datatype flavor = HtmlFlavor | TextFlavor

datatype walk_entry =
    WalkFile string
  | WalkDir string "error option" "walk_entry list"
  | WalkErr string error

datatype call =
    Call_Stat string
  | Call_IsDir string
  | Call_MkdirAll string
  | Call_RemoveAll string
  | Call_Command string "string list" string
  | Call_Walk string
  | Call_ParseFiles flavor string string
  | Call_OpenFile string
  | Call_ExecuteTemplate flavor string Discriminator string
  | Call_Open string
  | Call_Write string string
  | Call_ReadDir string
  | Call_CopyDir string string
  | Call_CopyFile string string

record env =
  os_Stat :: "call list \<Rightarrow> string \<Rightarrow> error option"
  util_IsDir :: "call list \<Rightarrow> string \<Rightarrow> bool"
  os_MkdirAll :: "call list \<Rightarrow> string \<Rightarrow> error option"
  os_RemoveAll :: "call list \<Rightarrow> string \<Rightarrow> error option"
  exec_CombinedOutput :: "call list \<Rightarrow> string \<Rightarrow> string list \<Rightarrow> string \<Rightarrow> error option"
  filepath_Walk :: "call list \<Rightarrow> string \<Rightarrow> walk_entry"
  template_ParseFiles :: "call list \<Rightarrow> flavor \<Rightarrow> string \<Rightarrow> string \<Rightarrow> error option"
  os_OpenFile :: "call list \<Rightarrow> string \<Rightarrow> error option"
  template_ExecuteTemplate :: "call list \<Rightarrow> flavor \<Rightarrow> string \<Rightarrow> Discriminator \<Rightarrow> string \<Rightarrow> error option"
  os_Open :: "call list \<Rightarrow> string \<Rightarrow> error + string"
  io_Write :: "call list \<Rightarrow> string \<Rightarrow> string \<Rightarrow> error option"
  ioutil_ReadDir :: "call list \<Rightarrow> string \<Rightarrow> error + string list"
  util_CopyDir :: "call list \<Rightarrow> string \<Rightarrow> string \<Rightarrow> error option"
  util_CopyFile :: "call list \<Rightarrow> string \<Rightarrow> string \<Rightarrow> error option"

section \<open>Template projects (\<open>File\<close>, \<open>Transformer\<close>, \<open>Template\<close>)\<close>

definition htmlTemplate :: string where "htmlTemplate = ''.gohtml''"
definition textTemplate :: string where "textTemplate = ''.tmpl''"

datatype Transformer =
    HtmlTransformer (Name: string)
  | TextTransformer (Name: string)
  | CopyTransformer (SrcFilename: string)

record File =
  srcFile :: string
  dstFilename :: string
  transformer :: Transformer

record Template =
  dir :: string
  buildDir :: string
  files :: "File list"

definition NewFile :: "env \<Rightarrow> string \<Rightarrow> call list \<Rightarrow> (error + File) \<times> call list" where
  "NewFile e fname tr =
     (let basePath = filepath_Base fname;
          ext = filepath_Ext basePath
      in if strings_ToLower ext = htmlTemplate then
           (let dst = take (length basePath - length htmlTemplate) basePath;
                err = template_ParseFiles e tr HtmlFlavor basePath fname;
                tr = tr @ [Call_ParseFiles HtmlFlavor basePath fname]
            in case err of
                 Some err \<Rightarrow> (Inl (Errorf ''failed to parse html template %s: %w'' [fname] (Some err)), tr)
               | None \<Rightarrow>
                   (Inr \<lparr>srcFile = fname, dstFilename = dst, transformer = HtmlTransformer basePath\<rparr>, tr))
         else if strings_ToLower ext = textTemplate then
           (let dst = take (length basePath - length textTemplate) basePath;
                err = template_ParseFiles e tr TextFlavor basePath fname;
                tr = tr @ [Call_ParseFiles TextFlavor basePath fname]
            in case err of
                 Some err \<Rightarrow> (Inl (Errorf ''failed to parse text template %s: %w'' [fname] (Some err)), tr)
               | None \<Rightarrow>
                   (Inr \<lparr>srcFile = fname, dstFilename = dst, transformer = TextTransformer basePath\<rparr>, tr))
         else (Inr \<lparr>srcFile = fname, dstFilename = basePath, transformer = CopyTransformer fname\<rparr>, tr))"

definition HtmlTransformer_Transform ::
  "env \<Rightarrow> Transformer \<Rightarrow> Discriminator \<Rightarrow> string \<Rightarrow> call list \<Rightarrow> error option \<times> call list" where
  "HtmlTransformer_Transform e h model out tr =
     (template_ExecuteTemplate e tr HtmlFlavor (Name h) model out,
      tr @ [Call_ExecuteTemplate HtmlFlavor (Name h) model out])"

definition TextTransformer_Transform ::
  "env \<Rightarrow> Transformer \<Rightarrow> Discriminator \<Rightarrow> string \<Rightarrow> call list \<Rightarrow> error option \<times> call list" where
  "TextTransformer_Transform e h model out tr =
     (let err = template_ExecuteTemplate e tr TextFlavor (Name h) model out;
          tr = tr @ [Call_ExecuteTemplate TextFlavor (Name h) model out]
      in case err of
           Some err \<Rightarrow> (Some (Errorf ''failed to apply text template for %s: %w'' [Name h] (Some err)), tr)
         | None \<Rightarrow> (None, tr))"

definition CopyTransformer_Transform ::
  "env \<Rightarrow> Transformer \<Rightarrow> Discriminator \<Rightarrow> string \<Rightarrow> call list \<Rightarrow> error option \<times> call list" where
  "CopyTransformer_Transform e h model out tr =
     (let r = os_Open e tr (SrcFilename h);
          tr = tr @ [Call_Open (SrcFilename h)]
      in case r of
           Inl err \<Rightarrow> (Some (Errorf ''unable to open %s: %w'' [SrcFilename h] (Some err)), tr)
         | Inr bytes \<Rightarrow>
             (let err = io_Write e tr out bytes;
                  tr = tr @ [Call_Write out bytes]
              in case err of
                   Some err \<Rightarrow> (Some (Errorf ''failed to copy: %s: %w'' [SrcFilename h] (Some err)), tr)
                 | None \<Rightarrow> (None, tr)))"

fun Transform ::
  "env \<Rightarrow> Transformer \<Rightarrow> Discriminator \<Rightarrow> string \<Rightarrow> call list \<Rightarrow> error option \<times> call list" where
  "Transform e (HtmlTransformer n) model out tr = HtmlTransformer_Transform e (HtmlTransformer n) model out tr"
| "Transform e (TextTransformer n) model out tr = TextTransformer_Transform e (TextTransformer n) model out tr"
| "Transform e (CopyTransformer n) model out tr = CopyTransformer_Transform e (CopyTransformer n) model out tr"

text \<open>An environment in which every call succeeds, every directory is empty and every file
  holds the bytes \<open>PNG\<close>.\<close>

definition quiet_env :: env where
  "quiet_env =
     \<lparr>os_Stat = (\<lambda>tr p. None),
      util_IsDir = (\<lambda>tr p. False),
      os_MkdirAll = (\<lambda>tr p. None),
      os_RemoveAll = (\<lambda>tr p. None),
      exec_CombinedOutput = (\<lambda>tr name args d. None),
      filepath_Walk = (\<lambda>tr p. WalkDir p None []),
      template_ParseFiles = (\<lambda>tr fl name file. None),
      os_OpenFile = (\<lambda>tr p. None),
      template_ExecuteTemplate = (\<lambda>tr fl name model out. None),
      os_Open = (\<lambda>tr p. Inr ''PNG''),
      io_Write = (\<lambda>tr out bytes. None),
      ioutil_ReadDir = (\<lambda>tr p. Inr []),
      util_CopyDir = (\<lambda>tr src dst. None),
      util_CopyFile = (\<lambda>tr src dst. None)\<rparr>"

section \<open>SHA-224 and hexadecimal encoding (\<open>sha256.Sum224\<close>, \<open>hex.EncodeToString\<close>)\<close>

text \<open>\<open>Sum224\<close> is SHA-224 as FIPS 180-4 defines it, on the bytes of the string; the digest
  has 28 bytes.\<close>

unbundle bit_operations_syntax

type_synonym u32 = "32 word"

definition K256 :: "u32 list" where
  "K256 =
    [0x428a2f98, 0x71374491, 0xb5c0fbcf, 0xe9b5dba5, 0x3956c25b, 0x59f111f1, 0x923f82a4, 0xab1c5ed5,
     0xd807aa98, 0x12835b01, 0x243185be, 0x550c7dc3, 0x72be5d74, 0x80deb1fe, 0x9bdc06a7, 0xc19bf174,
     0xe49b69c1, 0xefbe4786, 0x0fc19dc6, 0x240ca1cc, 0x2de92c6f, 0x4a7484aa, 0x5cb0a9dc, 0x76f988da,
     0x983e5152, 0xa831c66d, 0xb00327c8, 0xbf597fc7, 0xc6e00bf3, 0xd5a79147, 0x06ca6351, 0x14292967,
     0x27b70a85, 0x2e1b2138, 0x4d2c6dfc, 0x53380d13, 0x650a7354, 0x766a0abb, 0x81c2c92e, 0x92722c85,
     0xa2bfe8a1, 0xa81a664b, 0xc24b8b70, 0xc76c51a3, 0xd192e819, 0xd6990624, 0xf40e3585, 0x106aa070,
     0x19a4c116, 0x1e376c08, 0x2748774c, 0x34b0bcb5, 0x391c0cb3, 0x4ed8aa4a, 0x5b9cca4f, 0x682e6ff3,
     0x748f82ee, 0x78a5636f, 0x84c87814, 0x8cc70208, 0x90befffa, 0xa4506ceb, 0xbef9a3f7, 0xc67178f2]"

definition init224 :: "u32 list" where
  "init224 = [0xc1059ed8, 0x367cd507, 0x3070dd17, 0xf70e5939,
              0xffc00b31, 0x68581511, 0x64f98fa7, 0xbefa4fa4]"

definition sha_pad :: "nat \<Rightarrow> 8 word list" where
  "sha_pad len =
     0x80 # replicate ((119 - len mod 64) mod 64) 0
       @ map (\<lambda>i. ucast (drop_bit (8 * (7 - i)) (8 * word_of_nat len :: 64 word))) [0..<8]"

fun be_words :: "8 word list \<Rightarrow> u32 list" where
  "be_words (a # b # c # d # bs) =
     (push_bit 24 (ucast a) OR push_bit 16 (ucast b) OR push_bit 8 (ucast c) OR ucast d) # be_words bs"
| "be_words _ = []"

fun chunks :: "nat \<Rightarrow> 'a list \<Rightarrow> 'a list list" where
  "chunks n [] = []"
| "chunks n (x # xs) = take n (x # xs) # chunks n (drop (n - 1) xs)"

fun schedule :: "nat \<Rightarrow> u32 list \<Rightarrow> u32 list" where
  "schedule 0 w = w"
| "schedule (Suc n) w =
     (let i = length w;
          v1 = w ! (i - 2);
          t1 = word_rotr 17 v1 XOR word_rotr 19 v1 XOR drop_bit 10 v1;
          v2 = w ! (i - 15);
          t2 = word_rotr 7 v2 XOR word_rotr 18 v2 XOR drop_bit 3 v2
      in schedule n (w @ [t1 + w ! (i - 7) + t2 + w ! (i - 16)]))"

fun sha_round :: "u32 list \<Rightarrow> u32 \<times> u32 \<Rightarrow> u32 list" where
  "sha_round [a, b, c, d, e, f, g, h] (k, w) =
     (let t1 = h + (word_rotr 6 e XOR word_rotr 11 e XOR word_rotr 25 e)
                 + ((e AND f) XOR (NOT e AND g)) + k + w;
          t2 = (word_rotr 2 a XOR word_rotr 13 a XOR word_rotr 22 a)
                 + ((a AND b) XOR (a AND c) XOR (b AND c))
      in [t1 + t2, a, b, c, d + t1, e, f, g])"
| "sha_round s _ = s"

definition sha_block :: "u32 list \<Rightarrow> 8 word list \<Rightarrow> u32 list" where
  "sha_block h p =
     map2 (+) h (foldl sha_round h (zip K256 (schedule 48 (be_words p))))"

definition be_bytes :: "u32 \<Rightarrow> 8 word list" where
  "be_bytes w = [ucast (drop_bit 24 w), ucast (drop_bit 16 w), ucast (drop_bit 8 w), ucast w]"

definition Sum224 :: "string \<Rightarrow> 8 word list" where
  "Sum224 d =
     (let msg = map of_char d @ sha_pad (length d)
      in concat (map be_bytes (take 7 (foldl sha_block init224 (chunks 64 msg)))))"

definition hextable :: string where "hextable = ''0123456789abcdef''"

definition hex_EncodeToString :: "8 word list \<Rightarrow> string" where
  "hex_EncodeToString src =
     concat (map (\<lambda>v. [hextable ! unat (drop_bit 4 v), hextable ! unat (v AND 0x0f)]) src)"

section \<open>The build (build.go): \<open>Build\<close>, \<open>BuildRule\<close>, \<open>Template\<close>\<close>

record BuildRule =
  Id :: string
  Template :: string
  Name :: string

record Build =
  workspace :: Discriminator
  dir :: string
  rules :: "BuildRule list"
  tmpDir :: string

definition AddRule :: "Build \<Rightarrow> BuildRule \<Rightarrow> Build" where
  "AddRule b r = b\<lparr>rules := rules b @ [r]\<rparr>"

text \<open>\<open>Build.exec\<close> runs \<open>git\<close> whatever \<open>name\<close> it is given; \<open>name\<close> only shows in the message.\<close>

definition isUrl :: "string \<Rightarrow> bool" where
  "isUrl str = (let str = strings_ToLower str in strings_HasPrefix str ''http'')"

definition Build_exec ::
  "env \<Rightarrow> Build \<Rightarrow> string \<Rightarrow> string \<Rightarrow> string list \<Rightarrow> call list \<Rightarrow> error option \<times> call list" where
  "Build_exec e b d name' args tr =
     (let str = ''cd '' @ d @ '' && '' @ name' @ '' '' @ strings_Join args '' '';
          err = exec_CombinedOutput e tr ''git'' args d;
          tr = tr @ [Call_Command ''git'' args d]
      in case err of
           Some err \<Rightarrow> (Some (Errorf (CHR 0x27 # ''%s'' @ CHR 0x27 # '' failed: %w'') [str] (Some err)), tr)
         | None \<Rightarrow> (None, tr))"

text \<open>\<open>templateDstDir\<close> is \<open>dstDir\<close> of \<open>provideTemplate\<close>, the cache directory of a template that
  is given by a URL; \<open>transformTmpDir\<close> is the staging directory that \<open>Apply\<close> derives for a
  rule.\<close>

definition templateDstDir :: "Build \<Rightarrow> string \<Rightarrow> string" where
  "templateDstDir b urlOrDir =
     (let tmp = Sum224 urlOrDir
      in filepath_Join [tmpDir b, ''template'', hex_EncodeToString tmp])"

definition provideTemplate ::
  "env \<Rightarrow> Build \<Rightarrow> string \<Rightarrow> call list \<Rightarrow> (error + string) \<times> call list" where
  "provideTemplate e b urlOrDir tr =
     (if isUrl urlOrDir then
        (let dstDir = templateDstDir b urlOrDir;
             err = os_Stat e tr dstDir;
             tr = tr @ [Call_Stat dstDir]
         in if err = None then
              (case Build_exec e b dstDir ''git'' [''pull''] tr of
                 (Some err, tr) \<Rightarrow> (Inl err, tr)
               | (None, tr) \<Rightarrow> (Inr dstDir, tr))
            else
              (let err = os_MkdirAll e tr dstDir;
                   tr = tr @ [Call_MkdirAll dstDir]
               in case err of
                    Some err \<Rightarrow>
                      (Inl (Errorf ''failed to create template clone folder %s: %w'' [dstDir] (Some err)), tr)
                  | None \<Rightarrow>
                      (case Build_exec e b dstDir ''git'' [''clone'', urlOrDir, ''.''] tr of
                         (Some err, tr) \<Rightarrow> (Inl err, tr)
                       | (None, tr) \<Rightarrow> (Inr dstDir, tr))))
      else
        (let err = os_Stat e tr urlOrDir;
             tr = tr @ [Call_Stat urlOrDir]
         in case err of
              Some err \<Rightarrow> (Inl (Errorf ''cannot find template %s: %w'' [urlOrDir] (Some err)), tr)
            | None \<Rightarrow> (Inr urlOrDir, tr)))"

definition transformTmpDir :: "Build \<Rightarrow> BuildRule \<Rightarrow> string" where
  "transformTmpDir b r =
     (let tmp = Sum224 (Id r @ Template r)
      in filepath_Join [tmpDir b, ''transform'', hex_EncodeToString tmp])"

text \<open>
  \<open>ReadTemplate\<close>. \<open>ReadTemplate_walkFn\<close> is the function it hands to \<open>filepath.Walk\<close>, with
  the files collected so far and the trace as its state; \<open>walk\<close> and \<open>walk_names\<close> are
  \<open>filepath.walk\<close> on the tree that the environment gives: the function is called on a
  directory before its entries, \<open>SkipDir\<close> from a directory skips its entries, \<open>SkipDir\<close> from
  a file skips the rest of its directory, and an error ends the walk.
\<close>

datatype walk_result = WalkNil | SkipDir | WalkError error

definition ReadTemplate_walkFn ::
  "env \<Rightarrow> string \<Rightarrow> string \<Rightarrow> string \<Rightarrow> bool \<Rightarrow> error option \<Rightarrow> File list \<times> call list
     \<Rightarrow> walk_result \<times> File list \<times> call list" where
  "ReadTemplate_walkFn e buildDir' path info_Name info_IsDir err st =
     (case err of
        Some err \<Rightarrow> (WalkError (Errorf ''failed to walk path %s: %w'' [path] (Some err)), st)
      | None \<Rightarrow>
          if info_IsDir \<and> strings_HasPrefix info_Name ''.'' \<or> path = buildDir' then (SkipDir, st)
          else if \<not> info_IsDir then
            (if info_Name = ''.DS_Store'' then (WalkNil, st)
             else (case NewFile e path (snd st) of
                     (Inl err, tr) \<Rightarrow> (WalkError (Errorf ''failed to scan file: %w'' [] (Some err)), fst st, tr)
                   | (Inr file, tr) \<Rightarrow> (WalkNil, fst st @ [file], tr)))
          else (WalkNil, st))"

fun entry_name :: "walk_entry \<Rightarrow> string" where
  "entry_name (WalkFile n) = n"
| "entry_name (WalkDir n _ _) = n"
| "entry_name (WalkErr n _) = n"

fun walk ::
    "env \<Rightarrow> string \<Rightarrow> string \<Rightarrow> walk_entry \<Rightarrow> File list \<times> call list
       \<Rightarrow> walk_result \<times> File list \<times> call list"
  and walk_names ::
    "env \<Rightarrow> string \<Rightarrow> string \<Rightarrow> walk_entry list \<Rightarrow> File list \<times> call list
       \<Rightarrow> walk_result \<times> File list \<times> call list"
where
  "walk e bd path (WalkFile n) st = ReadTemplate_walkFn e bd path n False None st"
| "walk e bd path (WalkErr n err) st = ReadTemplate_walkFn e bd path n False (Some err) st"
| "walk e bd path (WalkDir n err names) st =
     (case ReadTemplate_walkFn e bd path n True err st of
        (err1, st) \<Rightarrow>
          if err \<noteq> None \<or> err1 \<noteq> WalkNil then (err1, st)
          else walk_names e bd path names st)"
| "walk_names e bd path [] st = (WalkNil, st)"
| "walk_names e bd path (entry # names) st =
     (let filename = filepath_Join [path, entry_name entry]
      in case walk e bd filename entry st of
           (WalkNil, st) \<Rightarrow> walk_names e bd path names st
         | (SkipDir, st) \<Rightarrow>
             (case entry of
                WalkFile n \<Rightarrow> (SkipDir, st)
              | _ \<Rightarrow> walk_names e bd path names st)
         | (WalkError err, st) \<Rightarrow> (WalkError err, st))"

definition ReadTemplate ::
  "env \<Rightarrow> string \<Rightarrow> string \<Rightarrow> call list \<Rightarrow> (Template \<times> error option) \<times> call list" where
  "ReadTemplate e dir' buildDir' tr =
     (let root = filepath_Walk e tr dir';
          tr = tr @ [Call_Walk dir']
      in case walk e buildDir' dir' root ([], tr) of
           (WalkError err, fs, tr) \<Rightarrow>
             ((\<lparr>Template.dir = dir', buildDir = buildDir', files = fs\<rparr>,
               Some (Errorf ''failed to list template files: %w'' [] (Some err))), tr)
         | (_, fs, tr) \<Rightarrow>
             ((\<lparr>Template.dir = dir', buildDir = buildDir', files = fs\<rparr>, None), tr))"

text \<open>
  \<open>File.Apply\<close>. The slice \<open>f.srcFile[len(f.parent.dir):]\<close> panics when the source path is
  shorter than the directory of the template. The result of \<open>os.MkdirAll\<close> is dropped by the
  source, so only the call is recorded. The open destination file is named by its path.
\<close>

definition File_Apply ::
  "env \<Rightarrow> Template \<Rightarrow> File \<Rightarrow> Discriminator \<Rightarrow> call list \<Rightarrow> (panic + error option) \<times> call list" where
  "File_Apply e parent f model tr =
     (if length (srcFile f) < length (Template.dir parent) then (Inl SliceBoundsOutOfRange, tr)
      else
        (let relativePath = drop (length (Template.dir parent)) (srcFile f);
             dstFile = filepath_Join [buildDir parent, filepath_Dir relativePath, dstFilename f];
             tr = tr @ [Call_MkdirAll (filepath_Dir dstFile)];
             err = os_OpenFile e tr dstFile;
             tr = tr @ [Call_OpenFile dstFile]
         in case err of
              Some err \<Rightarrow> (Inr (Some (Errorf ''unable to create file %s: %w'' [dstFile] (Some err))), tr)
            | None \<Rightarrow>
                (case Transform e (transformer f) model dstFile tr of
                   (err, tr) \<Rightarrow> (Inr err, tr))))"

definition listRootFiles :: "env \<Rightarrow> string \<Rightarrow> call list \<Rightarrow> (string list \<times> error option) \<times> call list" where
  "listRootFiles e d tr =
     (let r = ioutil_ReadDir e tr d;
          tr = tr @ [Call_ReadDir d]
      in case r of
           Inl err \<Rightarrow> (([], Some (Errorf ''unable to list file from %s: %w'' [d] (Some err))), tr)
         | Inr fs \<Rightarrow> ((map (\<lambda>f. filepath_Join [d, f]) fs, None), tr))"

definition autobuild :: "env \<Rightarrow> Template \<Rightarrow> call list \<Rightarrow> (string list \<times> error option) \<times> call list" where
  "autobuild e p tr =
     (let err = os_Stat e tr (filepath_Join [buildDir p, ''latexmkrc'']);
          tr = tr @ [Call_Stat (filepath_Join [buildDir p, ''latexmkrc''])]
      in if err = None then
           (let err = exec_CombinedOutput e tr ''latexmk'' [] (buildDir p);
                tr = tr @ [Call_Command ''latexmk'' [] (buildDir p)]
            in case err of
                 Some err \<Rightarrow>
                   (([], Some (Errorf ''failed to build latex project in %s: %w'' [buildDir p] (Some err))), tr)
               | None \<Rightarrow>
                   (case listRootFiles e (buildDir p) tr of
                      ((fs, Some err), tr) \<Rightarrow> (([], Some err), tr)
                    | ((fs, None), tr) \<Rightarrow> ((filter (\<lambda>f. strings_HasSuffix f ''.pdf'') fs, None), tr)))
         else listRootFiles e (buildDir p) tr)"

text \<open>\<open>Template.Build\<close>; \<open>Build_files\<close> is its loop over \<open>p.files\<close>. A result \<open>Inl\<close> is a panic,
  \<open>Inr (files, err)\<close> the two results.\<close>

fun Build_files ::
  "env \<Rightarrow> Template \<Rightarrow> File list \<Rightarrow> Discriminator \<Rightarrow> call list \<Rightarrow> (panic + error option) \<times> call list" where
  "Build_files e p [] model tr = (Inr None, tr)"
| "Build_files e p (file # fs) model tr =
     (case File_Apply e p file model tr of
        (Inl pn, tr) \<Rightarrow> (Inl pn, tr)
      | (Inr (Some err), tr) \<Rightarrow> (Inr (Some (Errorf ''failed to build: %w'' [] (Some err))), tr)
      | (Inr None, tr) \<Rightarrow> Build_files e p fs model tr)"

definition Template_Build ::
  "env \<Rightarrow> Template \<Rightarrow> Discriminator \<Rightarrow> call list
     \<Rightarrow> (panic + string list \<times> error option) \<times> call list" where
  "Template_Build e p model tr =
     (let dstDir = buildDir p;
          err = os_RemoveAll e tr dstDir;
          tr = tr @ [Call_RemoveAll dstDir]
      in case err of
           Some err \<Rightarrow> (Inr ([], Some (Errorf ''failed to remove build dir %s: %w'' [dstDir] (Some err))), tr)
         | None \<Rightarrow>
             (let err = os_MkdirAll e tr dstDir;
                  tr = tr @ [Call_MkdirAll dstDir]
              in case err of
                   Some err \<Rightarrow>
                     (Inr ([], Some (Errorf ''failed to create build dir %s: %w'' [dstDir] (Some err))), tr)
                 | None \<Rightarrow>
                     (case Build_files e p (files p) model tr of
                        (Inl pn, tr) \<Rightarrow> (Inl pn, tr)
                      | (Inr (Some err), tr) \<Rightarrow> (Inr ([], Some err), tr)
                      | (Inr None, tr) \<Rightarrow> (case autobuild e p tr of (r, tr) \<Rightarrow> (Inr r, tr)))))"

text \<open>
  \<open>Build.Apply\<close>. \<open>Apply_copy\<close> is the inner loop over the built files, \<open>Apply_body\<close> the body
  of the loop over the rules: its result is \<open>Inr None\<close> when the body reaches its end, and the
  returned error (or the panic) otherwise. The second result of \<open>tpl.Build\<close> is assigned to
  \<open>err\<close> and overwritten by the result of \<open>os.MkdirAll\<close> before anything reads it.
\<close>

fun Apply_copy :: "env \<Rightarrow> string \<Rightarrow> string list \<Rightarrow> call list \<Rightarrow> error option \<times> call list" where
  "Apply_copy e targetDir [] tr = (None, tr)"
| "Apply_copy e targetDir (f # fs) tr =
     (let dst = filepath_Join [targetDir, filepath_Base f];
          isdir = util_IsDir e tr f;
          tr = tr @ [Call_IsDir f]
      in if isdir then
           (let err = util_CopyDir e tr f dst;
                tr = tr @ [Call_CopyDir f dst]
            in case err of
                 Some err \<Rightarrow> (Some (Errorf ''failed to copy result folder: %w'' [] (Some err)), tr)
               | None \<Rightarrow> Apply_copy e targetDir fs tr)
         else
           (let err = util_CopyFile e tr f dst;
                tr = tr @ [Call_CopyFile f dst]
            in case err of
                 Some err \<Rightarrow> (Some (Errorf ''failed to copy result file: %w'' [] (Some err)), tr)
               | None \<Rightarrow> Apply_copy e targetDir fs tr))"

definition Apply_body ::
  "env \<Rightarrow> Build \<Rightarrow> BuildRule \<Rightarrow> call list \<Rightarrow> (panic + error option) \<times> call list" where
  "Apply_body e b r tr =
     (case provideTemplate e b (Template r) tr of
        (Inl err, tr) \<Rightarrow> (Inr (Some (Errorf ''unable to provide template: %w'' [] (Some err))), tr)
      | (Inr template, tr) \<Rightarrow>
          (case ById (workspace b) (Id r) of
             None \<Rightarrow>
               (Inr (Some (Errorf (''workspace does not contain '' @ CHR 0x27 # ''%s'' @ [CHR 0x27]) [Id r] None)),
                tr)
           | Some objRoot \<Rightarrow>
               (case ReadTemplate e template (transformTmpDir b r) tr of
                  ((tpl, Some err), tr) \<Rightarrow>
                    (Inr (Some (Errorf ''failed to read template %s: %w'' [template] (Some err))), tr)
                | ((tpl, None), tr) \<Rightarrow>
                    (case Template_Build e tpl objRoot tr of
                       (Inl pn, tr) \<Rightarrow> (Inl pn, tr)
                     | (Inr (fs, err), tr) \<Rightarrow>
                         (let targetDir = filepath_Join [dir b, Name r];
                              err = os_MkdirAll e tr targetDir;
                              tr = tr @ [Call_MkdirAll targetDir]
                          in case err of
                               Some err \<Rightarrow>
                                 (Inr (Some (Errorf ''mkdir %s failed: %w'' [targetDir] (Some err))), tr)
                             | None \<Rightarrow>
                                 (case Apply_copy e targetDir fs tr of
                                    (err, tr) \<Rightarrow> (Inr err, tr)))))))"

fun Apply_rules ::
  "env \<Rightarrow> Build \<Rightarrow> BuildRule list \<Rightarrow> call list \<Rightarrow> (panic + error option) \<times> call list" where
  "Apply_rules e b [] tr = (Inr None, tr)"
| "Apply_rules e b (r # rs) tr =
     (case Apply_body e b r tr of
        (Inr None, tr) \<Rightarrow> Apply_rules e b rs tr
      | (res, tr) \<Rightarrow> (res, tr))"

definition Apply :: "env \<Rightarrow> Build \<Rightarrow> call list \<Rightarrow> (panic + error option) \<times> call list" where
  "Apply e b tr = Apply_rules e b (rules b) tr"

text \<open>The error of \<open>Apply\<close> for an identifier that \<open>ById\<close> does not find, and the calls that
  \<open>provideTemplate\<close> can make for a rule.\<close>

definition not_found :: "string \<Rightarrow> error" where
  "not_found ident = Errorf (''workspace does not contain '' @ CHR 0x27 # ''%s'' @ [CHR 0x27]) [ident] None"

definition provisioning_calls :: "Build \<Rightarrow> BuildRule \<Rightarrow> call list" where
  "provisioning_calls b r =
     [Call_Stat (Template r),
      Call_Stat (templateDstDir b (Template r)),
      Call_MkdirAll (templateDstDir b (Template r)),
      Call_Command ''git'' [''pull''] (templateDstDir b (Template r)),
      Call_Command ''git'' [''clone'', Template r, ''.''] (templateDstDir b (Template r))]"

text \<open>
  A build as in the test of the repository: one document \<open>1234\<close> and one rule with a local
  template \<open>tpl\<close>, which holds the one file \<open>index.tmpl\<close>. In \<open>render_failure_env\<close> every call
  succeeds but the execution of a template. \<open>book_template\<close> is the project that
  \<open>ReadTemplate\<close> returns there and \<open>render_error\<close> the error that \<open>Template.Build\<close> returns.
\<close>

definition render_failure_env :: env where
  "render_failure_env =
     quiet_env
       \<lparr>filepath_Walk := (\<lambda>tr p. WalkDir p None [WalkFile ''index.tmpl'']),
        template_ExecuteTemplate :=
          (\<lambda>tr fl n model out. Some (ErrExternal ''template: index.tmpl: executing: no such field''))\<rparr>"

definition book_build :: Build where
  "book_build =
     \<lparr>workspace = Workspace 1 ''1.0.1'' ''my workspace'' [Document ''1234'' [] [] []],
      dir = ''.build/doc'',
      rules = [\<lparr>Id = ''1234'', Template = ''tpl'', Name = ''mybook''\<rparr>],
      tmpDir = ''/tmp/wdydoc1''\<rparr>"

definition book_template :: Template where
  "book_template =
     \<lparr>Template.dir = ''tpl'',
      buildDir = transformTmpDir book_build \<lparr>Id = ''1234'', Template = ''tpl'', Name = ''mybook''\<rparr>,
      files = [\<lparr>srcFile = ''tpl/index.tmpl'', dstFilename = ''index'',
                transformer = TextTransformer ''index.tmpl''\<rparr>]\<rparr>"

definition render_error :: error where
  "render_error =
     Errorf ''failed to build: %w'' []
       (Some (Errorf ''failed to apply text template for %s: %w'' [''index.tmpl'']
          (Some (ErrExternal ''template: index.tmpl: executing: no such field''))))"

text \<open>
  Two more environments for the build above. In \<open>missing_template_env\<close> no path exists:
  \<open>os.Stat\<close> fails. In \<open>short_path_env\<close> every call succeeds and the template directory,
  named \<open>tpl\<close>, holds the one file \<open>a\<close>.
\<close>

definition missing_template_env :: env where
  "missing_template_env =
     quiet_env\<lparr>os_Stat := (\<lambda>tr p. Some (ErrExternal ''stat: no such file or directory''))\<rparr>"

definition short_path_env :: env where
  "short_path_env = quiet_env\<lparr>filepath_Walk := (\<lambda>tr p. WalkDir ''tpl'' None [WalkFile ''a''])\<rparr>"

text \<open>A path element that \<open>filepath_Clean\<close> keeps as it is, and the part of
  \<open>filepath_Join [tmp, a, h]\<close> that comes before such elements \<open>a\<close> and \<open>h\<close>.\<close>

definition plain :: "string \<Rightarrow> bool" where
  "plain x = (x \<noteq> [] \<and> Separator \<notin> set x \<and> x \<noteq> ''.'' \<and> x \<noteq> ''..'')"

definition join_prefix :: "string \<Rightarrow> string" where
  "join_prefix tmp =
     (let rooted = (tmp \<noteq> [] \<and> hd tmp = Separator);
          out = foldl (clean_step rooted) [] (if tmp = [] then [] else split_slash tmp)
      in (if rooted then [Separator] else []) @ (if out = [] then [] else join_slash out @ [Separator]))"

section \<open>The builder operations on objects (model.go)\<close>

text \<open>
  The builder methods change a node through a pointer and hand pointers out
  (\<open>NewDocument\<close>, \<open>NewChapter\<close>), and \<open>Add\<close> stores the pointers it is given, so one node can
  be reached on several ways. Here the nodes are objects on a heap: a \<open>ref\<close> is the index of
  an object, \<open>new\<close> allocates, and a body is a list of references. A method applied to a
  reference of the wrong type, or given a dangling reference, is \<open>None\<close>: Go's types exclude
  it. The addition \<open>c.Level + 1\<close> of a Go \<open>int\<close> wraps around at 64 bits (\<open>wrap_int\<close>).
\<close>

type_synonym ref = nat

datatype object =
    WorkspaceObj int string string "ref list"
  | DocumentObj string string "Author list" "ref list"
  | ChapterObj string int "ref list"
  | SpanObj string
  | defaultTypeObj string
  | defaultBodyObj string "ref list"

type_synonym heap = "object list"

definition wrap_int :: "int \<Rightarrow> int" where
  "wrap_int x = (x + 2 ^ 63) mod 2 ^ 64 - 2 ^ 63"

definition new :: "heap \<Rightarrow> object \<Rightarrow> ref \<times> heap" where
  "new h obj = (length h, h @ [obj])"

definition valid_refs :: "heap \<Rightarrow> ref list \<Rightarrow> bool" where
  "valid_refs h rs = list_all (\<lambda>r. r < length h) rs"

definition load :: "heap \<Rightarrow> ref \<Rightarrow> object option" where
  "load h r = (if r < length h then Some (h ! r) else None)"

definition Workspace_NewDocument :: "heap \<Rightarrow> ref \<Rightarrow> (ref \<times> heap) option" where
  "Workspace_NewDocument h w =
     (case load h w of
        Some (WorkspaceObj format version title resources) \<Rightarrow>
          (let (doc, h) = new h (DocumentObj [] [] [] [])
           in Some (doc, h[w := WorkspaceObj format version title (resources @ [doc])]))
      | _ \<Rightarrow> None)"

definition Document_NewChapter :: "heap \<Rightarrow> ref \<Rightarrow> string \<Rightarrow> (ref \<times> heap) option" where
  "Document_NewChapter h c s =
     (case load h c of
        Some (DocumentObj ident title authors body) \<Rightarrow>
          (let (chap, h) = new h (ChapterObj s 0 [])
           in Some (chap, h[c := DocumentObj ident title authors (body @ [chap])]))
      | _ \<Rightarrow> None)"

definition Document_Add :: "heap \<Rightarrow> ref \<Rightarrow> ref list \<Rightarrow> (ref \<times> heap) option" where
  "Document_Add h c e =
     (case load h c of
        Some (DocumentObj ident title authors body) \<Rightarrow>
          if valid_refs h e then Some (c, h[c := DocumentObj ident title authors (body @ e)]) else None
      | _ \<Rightarrow> None)"

definition Chapter_Add :: "heap \<Rightarrow> ref \<Rightarrow> ref list \<Rightarrow> (ref \<times> heap) option" where
  "Chapter_Add h c e =
     (case load h c of
        Some (ChapterObj title level body) \<Rightarrow>
          if valid_refs h e then Some (c, h[c := ChapterObj title level (body @ e)]) else None
      | _ \<Rightarrow> None)"

definition Chapter_NewChapter :: "heap \<Rightarrow> ref \<Rightarrow> string \<Rightarrow> (ref \<times> heap) option" where
  "Chapter_NewChapter h c title =
     (case load h c of
        Some (ChapterObj ctitle level body) \<Rightarrow>
          (let (chap, h) = new h (ChapterObj title (wrap_int (level + 1)) [])
           in Some (chap, h[c := ChapterObj ctitle level (body @ [chap])]))
      | _ \<Rightarrow> None)"

definition Chapter_Text :: "heap \<Rightarrow> ref \<Rightarrow> string \<Rightarrow> (ref \<times> heap) option" where
  "Chapter_Text h c str =
     (let (span, h) = new h (SpanObj str)
      in Chapter_Add h c [span])"

definition new_defaultBody :: "heap \<Rightarrow> string \<Rightarrow> ref list \<Rightarrow> (ref \<times> heap) option" where
  "new_defaultBody h n body = (if valid_refs h body then Some (new h (defaultBodyObj n body)) else None)"

text \<open>
  A program that only uses the builder operations is a list of \<open>builder_op\<close>: the methods on
  a receiver, and the functions \<open>Text\<close>, \<open>Italic\<close>, \<open>Bold\<close>, \<open>Underline\<close>, \<open>TitlePage\<close>, \<open>TOC\<close>,
  \<open>Newline\<close> and \<open>Newpage\<close>, which make a new node. \<open>builder_run\<close> runs it from a heap;
  \<open>new_workspace\<close> holds the one object \<open>&Workspace{}\<close> at reference 0.
\<close>

datatype builder_op =
    Op_NewDocument ref
  | Op_Document_NewChapter ref string
  | Op_Document_Add ref "ref list"
  | Op_Chapter_Add ref "ref list"
  | Op_Chapter_NewChapter ref string
  | Op_Chapter_Text ref string
  | Op_Text string
  | Op_Italic "ref list"
  | Op_Bold "ref list"
  | Op_Underline "ref list"
  | Op_TitlePage "ref list"
  | Op_TOC
  | Op_Newline
  | Op_Newpage

fun builder_step :: "heap \<Rightarrow> builder_op \<Rightarrow> (ref \<times> heap) option" where
  "builder_step h (Op_NewDocument w) = Workspace_NewDocument h w"
| "builder_step h (Op_Document_NewChapter c s) = Document_NewChapter h c s"
| "builder_step h (Op_Document_Add c e) = Document_Add h c e"
| "builder_step h (Op_Chapter_Add c e) = Chapter_Add h c e"
| "builder_step h (Op_Chapter_NewChapter c s) = Chapter_NewChapter h c s"
| "builder_step h (Op_Chapter_Text c s) = Chapter_Text h c s"
| "builder_step h (Op_Text s) = Some (new h (SpanObj s))"
| "builder_step h (Op_Italic body) = new_defaultBody h ItalicType body"
| "builder_step h (Op_Bold body) = new_defaultBody h BoldType body"
| "builder_step h (Op_Underline body) = new_defaultBody h UnderlineType body"
| "builder_step h (Op_TitlePage body) = new_defaultBody h TitlepageType body"
| "builder_step h Op_TOC = Some (new h (defaultTypeObj TOCType))"
| "builder_step h Op_Newline = Some (new h (defaultTypeObj NewlineType))"
| "builder_step h Op_Newpage = Some (new h (defaultTypeObj NewpageType))"

fun builder_run :: "heap \<Rightarrow> builder_op list \<Rightarrow> heap option" where
  "builder_run h [] = Some h"
| "builder_run h (op # ops) =
     (case builder_step h op of None \<Rightarrow> None | Some (r, h') \<Rightarrow> builder_run h' ops)"

fun children :: "object \<Rightarrow> ref list" where
  "children (WorkspaceObj _ _ _ resources) = resources"
| "children (DocumentObj _ _ _ body) = body"
| "children (ChapterObj _ _ body) = body"
| "children (defaultBodyObj _ body) = body"
| "children _ = []"

fun is_Chapter :: "object \<Rightarrow> bool" where
  "is_Chapter (ChapterObj _ _ _) = True"
| "is_Chapter _ = False"

fun is_Document :: "object \<Rightarrow> bool" where
  "is_Document (DocumentObj _ _ _ _) = True"
| "is_Document _ = False"

fun is_Workspace :: "object \<Rightarrow> bool" where
  "is_Workspace (WorkspaceObj _ _ _ _) = True"
| "is_Workspace _ = False"

fun Level_of :: "object \<Rightarrow> int" where
  "Level_of (ChapterObj _ level _) = level"
| "Level_of _ = 0"

text \<open>
  \<open>content_only h ops\<close>: no \<open>Add\<close> and no group constructor of the program is given a chapter, a
  document or a workspace. \<open>nested h c d\<close>: the object \<open>c\<close> is reached from the workspace at
  reference 0 through \<open>Resources\<close> and \<open>Body\<close> on a way with \<open>d\<close> chapters above it.
\<close>

definition content_ref :: "heap \<Rightarrow> ref \<Rightarrow> bool" where
  "content_ref h r =
     (r < length h \<and> \<not> is_Chapter (h ! r) \<and> \<not> is_Document (h ! r) \<and> \<not> is_Workspace (h ! r))"

fun content_args :: "heap \<Rightarrow> builder_op \<Rightarrow> bool" where
  "content_args h (Op_Document_Add c e) = list_all (content_ref h) e"
| "content_args h (Op_Chapter_Add c e) = list_all (content_ref h) e"
| "content_args h (Op_Italic body) = list_all (content_ref h) body"
| "content_args h (Op_Bold body) = list_all (content_ref h) body"
| "content_args h (Op_Underline body) = list_all (content_ref h) body"
| "content_args h (Op_TitlePage body) = list_all (content_ref h) body"
| "content_args h _ = True"

fun content_only :: "heap \<Rightarrow> builder_op list \<Rightarrow> bool" where
  "content_only h [] = True"
| "content_only h (op # ops) =
     (content_args h op \<and>
      (case builder_step h op of None \<Rightarrow> True | Some (r, h') \<Rightarrow> content_only h' ops))"

inductive nested :: "heap \<Rightarrow> ref \<Rightarrow> nat \<Rightarrow> bool" for h :: heap where
  root: "nested h 0 0"
| child: "nested h a d \<Longrightarrow> a < length h \<Longrightarrow> c \<in> set (children (h ! a))
          \<Longrightarrow> nested h c (if is_Chapter (h ! a) then Suc d else d)"

definition new_workspace :: heap where
  "new_workspace = [WorkspaceObj 0 [] [] []]"


definition good_edge :: "heap \<Rightarrow> ref \<Rightarrow> ref \<Rightarrow> bool" where
  "good_edge h a c =
     (c < length h \<and> \<not> is_Workspace (h ! c)
      \<and> (is_Document (h ! c) \<longrightarrow> is_Workspace (h ! a))
      \<and> (is_Chapter (h ! c) \<longrightarrow>
            (is_Document (h ! a) \<and> Level_of (h ! c) = 0)
            \<or> (is_Chapter (h ! a) \<and> Level_of (h ! c) = wrap_int (Level_of (h ! a) + 1))))"

definition heap_inv :: "heap \<Rightarrow> bool" where
  "heap_inv h =
     (h \<noteq> [] \<and> is_Workspace (h ! 0)
      \<and> (\<forall>a < length h. \<forall>c \<in> set (children (h ! a)). good_edge h a c))"

definition same_kinds :: "heap \<Rightarrow> heap \<Rightarrow> bool" where
  "same_kinds h h' =
     (length h \<le> length h'
      \<and> (\<forall>a < length h. is_Workspace (h' ! a) = is_Workspace (h ! a)
            \<and> is_Document (h' ! a) = is_Document (h ! a)
            \<and> is_Chapter (h' ! a) = is_Chapter (h ! a)
            \<and> Level_of (h' ! a) = Level_of (h ! a)))"

section \<open>Properties of the codec\<close>

subsection \<open>Encoding and decoding in memory\<close>

lemma assertObjList_maps:
  "assertObjList (Some (GSlice (map (\<lambda>item. GMap (f item)) xs))) = map f xs"
  by (induction xs) auto

lemma fromJson_each_map:
  "(\<And>x. x \<in> set xs \<Longrightarrow> dec (f x) = Inr x) \<Longrightarrow> fromJson_each dec (map f xs) = Inr xs"
  by (induction xs) auto

lemma Author_roundtrip: "Author_fromJson (Author_toJson a) = Inr a"
  by (cases a) (simp add: Author_fromJson_def Author_toJson_def assert_string_def type_names)

lemma Author_toJson_type: "optString (Author_toJson a) ''type'' = ''author''"
  by (simp add: Author_toJson_def optString_def type_names)

lemma fromJson_Author_toJson: "fromJson (Author_toJson a) = Inr (AuthorRef a)"
  by (subst fromJson.simps) (simp add: Let_def Author_roundtrip Author_toJson_type type_names)

lemma fromJson_each_authors:
  "fromJson_each (\<lambda>obj. assert_Author (fromJson obj)) (map Author_toJson xs) = Inr xs"
  by (rule fromJson_each_map) (simp add: fromJson_Author_toJson assert_Author_def)

text \<open>Decoding the encoding of a constructible tree gives the tree back, as long as the
  attribute map is handed over in memory.\<close>

lemma fromJson_toJson: "constructible T \<Longrightarrow> fromJson (toJson T) = Inr T"
proof (induction T)
  case (Workspace f v t rs)
  then have "fromJson_each fromJson (map toJson rs) = Inr rs"
    by (intro fromJson_each_map) (auto simp: list_all_iff)
  then show ?case
    by (subst fromJson.simps)
       (simp add: Workspace_fromJson_def optString_def optInt_def assert_string_def
          assertObjList_maps type_names del: assertObjList.simps)
next
  case (Document i t as b)
  then have "fromJson_each fromJson (map toJson b) = Inr b"
    by (intro fromJson_each_map) (auto simp: list_all_iff)
  then show ?case
    by (subst fromJson.simps)
       (simp add: Let_def Document_fromJson_def optString_def optSet_def fromJson_each_authors
          assertObjList_maps type_names del: assertObjList.simps)
next
  case (AuthorRef a)
  show ?case by (simp add: fromJson_Author_toJson)
next
  case (Chapter t l b)
  then have "fromJson_each fromJson (map toJson b) = Inr b"
    by (intro fromJson_each_map) (auto simp: list_all_iff)
  then show ?case
    by (subst fromJson.simps)
       (simp add: Chapter_fromJson_def optString_def optInt_def
          assertObjList_maps type_names del: assertObjList.simps)
next
  case (Span v)
  show ?case by (subst fromJson.simps) (simp add: Span_fromJson_def optString_def type_names)
next
  case (Code h ls)
  show ?case
    by (subst fromJson.simps) (simp add: Code_fromJson_def optString_def optStringSlice_def type_names)
next
  case (Image s w h)
  show ?case by (subst fromJson.simps) (simp add: Image_fromJson_def optString_def type_names)
next
  case (defaultType n)
  then show ?case
    by (subst fromJson.simps)
       (auto simp: defaultType_fromJson_def optString_def type_names TOC_def Newline_def Newpage_def)
next
  case (defaultBody n b)
  then have "fromJson_each fromJson (map toJson b) = Inr b"
    by (intro fromJson_each_map) (auto simp: list_all_iff)
  with defaultBody.prems show ?case
    by (subst fromJson.simps)
       (auto simp: defaultBody_fromJson_def optString_def assertObjList_maps type_names
          Italic_def Bold_def Underline_def TitlePage_def simp del: assertObjList.simps)
qed

text \<open>
  Claim C1. For every constructible tree \<open>T\<close>, decoding the encoding of \<open>T\<close> reproduces \<open>T\<close>,
  for \<open>fromJson\<close> of \<open>toJson\<close> and likewise for \<open>Unmarshal\<close> of \<open>Marshal\<close>. The first half is
  \<open>fromJson_toJson\<close>. The second half fails on the code: \<open>Code.toJson\<close> stores the lines as a
  \<open>[]string\<close>, \<open>json.Unmarshal\<close> reads an array back as a \<open>[]interface{}\<close>, and
  \<open>optStringSlice\<close> accepts a \<open>[]string\<close> only, so the lines of every \<open>Code\<close> node are lost.
  The theorem evaluates the code on a workspace with one \<open>Code\<close> node.
\<close>

theorem Unmarshal_Marshal_drops_Code_lines:
  "Unmarshal_of_Marshal (Workspace 1 ''1.0'' ''W'' [Code ''go'' [''x := 1'']])
     = Inr (Inr (Workspace 1 ''1.0'' ''W'' [Code ''go'' []]))"
  by (simp add: Unmarshal_of_Marshal_def Marshal_def Unmarshal_def json_Unmarshal_def
        maxNestingDepth_def float64_overflows_def Workspace_fromJson_def
        fromJson.simps Code_fromJson_def optString_def optStringSlice_def optInt_def
        assert_string_def int_of_float64_def MinInt_def MaxInt_def type_names
        float64_nearest_def floor_log2_def compute_bitlen power_int_minus)

text \<open>
  Claim C3. For every attribute map whose \<open>type\<close> is not one of the fourteen registered
  discriminators (also when it is missing or not a string), \<open>fromJson\<close> panics with the
  unknown-type panic and returns no node.
\<close>

theorem fromJson_unknown_type_panics:
  "optString m typeAttrName \<notin> set registered_types
   \<Longrightarrow> fromJson m = Inl (UnknownFormatType (optString m typeAttrName))
     \<and> (\<forall>node. fromJson m \<noteq> Inr node)"
  by (subst fromJson.simps, subst fromJson.simps) (simp add: registered_types_def Let_def)

theorem fromJson_unknown_type_panics_witness:
  "optString [(''type'', GString ''table'')] typeAttrName \<notin> set registered_types
   \<and> fromJson [(''type'', GString ''table'')] = Inl (UnknownFormatType ''table'')
   \<and> (\<forall>node. fromJson [(''type'', GString ''table'')] \<noteq> Inr node)"
proof -
  have h: "optString [(''type'', GString ''table'')] typeAttrName \<notin> set registered_types"
    by (simp add: optString_def registered_types_def type_names)
  show ?thesis
    using h fromJson_unknown_type_panics [OF h] by (simp add: optString_def type_names)
qed

text \<open>
  Claim C8. For every attribute map and key, \<open>optInt\<close> reads an \<open>int\<close>, an \<open>int64\<close> and a
  \<open>float64\<close> that holds an integer of the range of \<open>int\<close> as that integer, and a missing or
  non-numeric value as zero; \<open>Chapter.fromJson\<close> reads \<open>level\<close> and \<open>Workspace.fromJson\<close>
  reads \<open>format\<close> through it.
\<close>

theorem optInt_normalizes:
  "(map_of m key = Some (GInt n) \<longrightarrow> optInt m key = n)
   \<and> (map_of m key = Some (GInt64 n) \<longrightarrow> optInt m key = n)
   \<and> (MinInt \<le> n \<and> n \<le> MaxInt \<and> map_of m key = Some (GFloat64 (of_int n)) \<longrightarrow> optInt m key = n)
   \<and> (map_of m key = None \<longrightarrow> optInt m key = 0)
   \<and> (map_of m key \<in> {Some GNil, Some (GBool b), Some (GString s), Some (GStrings ss),
        Some (GSlice vs), Some (GMap kvs)} \<longrightarrow> optInt m key = 0)
   \<and> (optString m typeAttrName = ChapterType \<and> fromJson m = Inr c \<longrightarrow> Level c = optInt m ''level'')
   \<and> (Workspace_fromJson fromJson m = Inr w \<longrightarrow> Format w = optInt m ''format'')"
proof (intro conjI impI)
  assume "optString m typeAttrName = ChapterType \<and> fromJson m = Inr c"
  then show "Level c = optInt m ''level''"
    by (subst (asm) fromJson.simps) (auto simp: type_names Chapter_fromJson_def Let_def split: sum.splits)
next
  assume "Workspace_fromJson fromJson m = Inr w"
  then show "Format w = optInt m ''format''"
    by (auto simp: Workspace_fromJson_def Let_def split: sum.splits)
qed (auto simp: optInt_def int_of_float64_def)

theorem optInt_normalizes_witness:
  "optInt [(''level'', GInt 2)] ''level'' = 2
   \<and> optInt [(''level'', GInt64 2)] ''level'' = 2
   \<and> optInt [(''level'', GFloat64 2)] ''level'' = 2
   \<and> optInt [] ''level'' = 0
   \<and> optInt [(''level'', GString ''2'')] ''level'' = 0
   \<and> fromJson [(''type'', GString ''chapter''), (''level'', GFloat64 2)] = Inr (Chapter [] 2 [])
   \<and> Workspace_fromJson fromJson
        [(''title'', GString ''W''), (''version'', GString ''1''), (''format'', GFloat64 1)]
      = Inr (Workspace 1 ''1'' ''W'' [])"
proof -
  let ?c = "[(''type'', GString ''chapter''), (''level'', GFloat64 2)]"
  let ?w = "[(''title'', GString ''W''), (''version'', GString ''1''), (''format'', GFloat64 1)]"
  have c: "fromJson ?c = Inr (Chapter [] 2 [])"
    by (simp add: fromJson.simps Chapter_fromJson_def optString_def optInt_def int_of_float64_def
          MinInt_def MaxInt_def type_names)
  have w: "Workspace_fromJson fromJson ?w = Inr (Workspace 1 ''1'' ''W'' [])"
    by (simp add: Workspace_fromJson_def assert_string_def optInt_def int_of_float64_def
          MinInt_def MaxInt_def)
  show ?thesis
    using optInt_normalizes [of "[(''level'', GInt 2)]" "''level''" 2]
      optInt_normalizes [of "[(''level'', GInt64 2)]" "''level''" 2]
      optInt_normalizes [of "[(''level'', GFloat64 2)]" "''level''" 2]
      optInt_normalizes [of "[]" "''level''"]
      optInt_normalizes [of "[(''level'', GString ''2'')]" "''level''" _ _ "''2''"]
      optInt_normalizes [of ?c _ _ _ _ _ _ _ "Chapter [] 2 []"] c
      optInt_normalizes [of ?w _ _ _ _ _ _ _ _ "Workspace 1 ''1'' ''W'' []"] w
    by (simp add: MinInt_def MaxInt_def)
qed

subsection \<open>Reading a workspace from JSON text\<close>

lemma map_of_map_snd:
  "map_of (map (\<lambda>kv. (fst kv, f (snd kv))) xs) k = map_option f (map_of xs k)"
  by (induction xs) auto

lemma map_of_json_value:
  "map_of (rev (map (\<lambda>kv. (fst kv, json_value (snd kv))) kvs)) k
     = map_option json_value (json_member kvs k)"
  by (simp add: json_member_def rev_map map_of_map_snd)

lemma assert_string_json_value:
  "assert_string (map_option json_value v) =
     (case v of Some (JString s) \<Rightarrow> Inr s | _ \<Rightarrow> Inl (InterfaceConversion ''interface {} is not string''))"
  by (cases v; cases "the v") (simp_all add: assert_string_def)

lemma optString_json_value:
  "optString (rev (map (\<lambda>kv. (fst kv, json_value (snd kv))) kvs)) k =
     (case json_member kvs k of Some (JString s) \<Rightarrow> s | _ \<Rightarrow> [])"
  unfolding optString_def map_of_json_value
  by (cases "json_member kvs k"; cases "the (json_member kvs k)") simp_all

lemma assertObjList_json_value:
  "assertObjList (Some (GSlice (map json_value js))) = json_objects js"
  by (simp add: json_objects_def)

lemma json_objects_append: "json_objects (xs @ ys) = json_objects xs @ json_objects ys"
  by (simp add: json_objects_def)

lemma json_objects_JObject:
  "json_objects (JObject a # rest)
     = rev (map (\<lambda>kv. (fst kv, json_value (snd kv))) a) # json_objects rest"
  by (simp add: json_objects_def)

lemma fromJson_each_append_panic:
  "fromJson_each f xs = Inr r \<Longrightarrow> f y = Inl p \<Longrightarrow> fromJson_each f (xs @ y # zs) = Inl p"
  by (induction xs arbitrary: r) (auto split: sum.splits)

lemma Unmarshal_accepted:
  "json_accepted (JObject obj) \<Longrightarrow>
   Unmarshal (JObject obj) =
     (case Workspace_fromJson fromJson (rev (map (\<lambda>kv. (fst kv, json_value (snd kv))) obj)) of
        Inl p \<Rightarrow> Inl p | Inr w \<Rightarrow> Inr (Inr w))"
  by (simp add: Unmarshal_def json_Unmarshal_def json_accepted_def)

lemma Unmarshal_rejected:
  "\<not> json_accepted b \<Longrightarrow> \<exists>err. Unmarshal b = Inr (Inl err)"
  by (cases b) (auto simp: Unmarshal_def json_Unmarshal_def json_accepted_def)

lemma Workspace_fromJson_resources_panic:
  assumes "is_json_string (json_member obj ''title'')" "is_json_string (json_member obj ''version'')"
    and "json_member obj ''resources'' = Some (JArray js)"
    and "fromJson_each fromJson (json_objects js) = Inl p"
  shows "Workspace_fromJson fromJson (rev (map (\<lambda>kv. (fst kv, json_value (snd kv))) obj)) = Inl p"
  using assms
  unfolding Workspace_fromJson_def map_of_json_value assert_string_json_value
  by (auto simp: is_json_string_def assertObjList_json_value
        simp del: assertObjList.simps split: option.splits json.splits)

lemma author_fromJson_panics:
  assumes "json_member a ''type'' = Some (JString ''author'')"
    and "\<not> (is_json_string (json_member a ''firstname'') \<and> is_json_string (json_member a ''lastname'')
            \<and> is_json_string (json_member a ''email''))"
  shows "fromJson (rev (map (\<lambda>kv. (fst kv, json_value (snd kv))) a))
           = Inl (InterfaceConversion ''interface {} is not string'')"
proof -
  let ?m = "rev (map (\<lambda>kv. (fst kv, json_value (snd kv))) a)"
  have "Author_fromJson ?m = Inl (InterfaceConversion ''interface {} is not string'')"
    using assms unfolding Author_fromJson_def map_of_json_value assert_string_json_value
    by (auto simp: is_json_string_def split: option.splits json.splits)
  moreover have "optString ?m ''type'' = ''author''"
    using assms by (simp add: optString_json_value)
  ultimately show ?thesis
    by (subst fromJson.simps) (simp add: type_names)
qed

lemma document_fromJson_authors_panic:
  assumes "json_member d ''type'' = Some (JString ''document'')"
    and "json_member d ''authors'' = Some (JArray js)"
    and "fromJson_each (\<lambda>obj. assert_Author (fromJson obj)) (json_objects js) = Inl p"
  shows "fromJson (rev (map (\<lambda>kv. (fst kv, json_value (snd kv))) d)) = Inl p"
proof -
  let ?m = "rev (map (\<lambda>kv. (fst kv, json_value (snd kv))) d)"
  have "optString ?m ''type'' = ''document''"
    using assms by (simp add: optString_json_value)
  moreover have "Document_fromJson fromJson ?m = Inl p"
    using assms unfolding Document_fromJson_def map_of_json_value
    by (simp add: assertObjList_json_value Let_def del: assertObjList.simps)
  ultimately show ?thesis
    by (subst fromJson.simps) (simp add: type_names)
qed

text \<open>
  Claim C10, as stated: \<open>Unmarshal\<close> of a syntactically valid JSON object that lacks a
  required string attribute panics instead of returning an error. The object
  \<open>{"version": "1", "format": 1e400}\<close> has no \<open>title\<close>, and \<open>Unmarshal\<close> returns an error for it:
  the number has no finite \<open>float64\<close>, \<open>json.Unmarshal\<close> returns an error, and \<open>Unmarshal\<close>
  returns that error before \<open>Workspace.fromJson\<close> is called.
\<close>

theorem Unmarshal_number_out_of_range_returns_error:
  "is_json_string (json_member [(''version'', JString ''1''), (''format'', JNumber (10 ^ 400))] ''title'')
     = False
   \<and> Unmarshal (JObject [(''version'', JString ''1''), (''format'', JNumber (10 ^ 400))])
     = Inr (Inl (ErrExternal ''json: cannot unmarshal number into Go value of type float64''))"
  by (simp add: json_member_def is_json_string_def Unmarshal_def json_Unmarshal_def
        maxNestingDepth_def float64_overflows_def)

text \<open>
  Claim C10, amended. \<open>Unmarshal\<close> of a JSON object on which \<open>json.Unmarshal\<close> returns an
  error returns an error. On every other JSON object it panics with a failed type assertion,
  and returns no error, when \<open>title\<close> or \<open>version\<close> is missing or not a string; and, these
  two being strings, when an author without a string \<open>firstname\<close>, \<open>lastname\<close> or \<open>email\<close>
  stands among the resources, or among the \<open>authors\<close> of a document of the resources, and the
  elements before it in these lists decode without a panic. An optional attribute (the
  \<open>value\<close> of a text node) that is missing or not a string is read as the empty string
  instead.
\<close>

theorem Unmarshal_required_string_panics:
  "(\<not> json_accepted (JObject obj) \<longrightarrow> (\<exists>err. Unmarshal (JObject obj) = Inr (Inl err)))
   \<and> (json_accepted (JObject obj)
        \<and> (\<not> is_json_string (json_member obj ''title'') \<or> \<not> is_json_string (json_member obj ''version''))
      \<longrightarrow> Unmarshal (JObject obj) = Inl (InterfaceConversion ''interface {} is not string''))
   \<and> (json_accepted (JObject obj)
        \<and> is_json_string (json_member obj ''title'') \<and> is_json_string (json_member obj ''version'')
        \<and> json_member obj ''resources'' = Some (JArray (pre @ JObject a # rest))
        \<and> fromJson_each fromJson (json_objects pre) = Inr xs
        \<and> json_member a ''type'' = Some (JString ''author'')
        \<and> \<not> (is_json_string (json_member a ''firstname'') \<and> is_json_string (json_member a ''lastname'')
              \<and> is_json_string (json_member a ''email''))
      \<longrightarrow> Unmarshal (JObject obj) = Inl (InterfaceConversion ''interface {} is not string''))
   \<and> (json_accepted (JObject obj)
        \<and> is_json_string (json_member obj ''title'') \<and> is_json_string (json_member obj ''version'')
        \<and> json_member obj ''resources'' = Some (JArray (pre @ JObject d # rest))
        \<and> fromJson_each fromJson (json_objects pre) = Inr xs
        \<and> json_member d ''type'' = Some (JString ''document'')
        \<and> json_member d ''authors'' = Some (JArray (apre @ JObject a # arest))
        \<and> fromJson_each (\<lambda>obj. assert_Author (fromJson obj)) (json_objects apre) = Inr aus
        \<and> json_member a ''type'' = Some (JString ''author'')
        \<and> \<not> (is_json_string (json_member a ''firstname'') \<and> is_json_string (json_member a ''lastname'')
              \<and> is_json_string (json_member a ''email''))
      \<longrightarrow> Unmarshal (JObject obj) = Inl (InterfaceConversion ''interface {} is not string''))
   \<and> (json_accepted (JObject obj)
        \<and> is_json_string (json_member obj ''title'') \<and> is_json_string (json_member obj ''version'')
        \<and> json_member obj ''resources'' = Some (JArray [JObject a])
        \<and> json_member a ''type'' = Some (JString ''text'')
        \<and> \<not> is_json_string (json_member a ''value'')
      \<longrightarrow> (\<exists>f v t. Unmarshal (JObject obj) = Inr (Inr (Workspace f v t [Span []]))))"
proof (intro conjI impI)
  assume "\<not> json_accepted (JObject obj)"
  then show "\<exists>err. Unmarshal (JObject obj) = Inr (Inl err)"
    by (rule Unmarshal_rejected)
next
  assume h: "json_accepted (JObject obj)
        \<and> (\<not> is_json_string (json_member obj ''title'') \<or> \<not> is_json_string (json_member obj ''version''))"
  then have acc: "json_accepted (JObject obj)" by simp
  from h show "Unmarshal (JObject obj) = Inl (InterfaceConversion ''interface {} is not string'')"
    unfolding Unmarshal_accepted [OF acc] Workspace_fromJson_def map_of_json_value
      assert_string_json_value
    by (auto simp: is_json_string_def split: option.splits json.splits)
next
  assume h: "json_accepted (JObject obj)
        \<and> is_json_string (json_member obj ''title'') \<and> is_json_string (json_member obj ''version'')
        \<and> json_member obj ''resources'' = Some (JArray (pre @ JObject a # rest))
        \<and> fromJson_each fromJson (json_objects pre) = Inr xs
        \<and> json_member a ''type'' = Some (JString ''author'')
        \<and> \<not> (is_json_string (json_member a ''firstname'') \<and> is_json_string (json_member a ''lastname'')
              \<and> is_json_string (json_member a ''email''))"
  let ?P = "InterfaceConversion ''interface {} is not string''"
  have "fromJson (rev (map (\<lambda>kv. (fst kv, json_value (snd kv))) a)) = Inl ?P"
    using h by (intro author_fromJson_panics) simp_all
  with h have "fromJson_each fromJson (json_objects (pre @ JObject a # rest)) = Inl ?P"
    by (simp add: json_objects_append json_objects_JObject fromJson_each_append_panic
          del: fromJson_each.simps)
  with h have "Workspace_fromJson fromJson (rev (map (\<lambda>kv. (fst kv, json_value (snd kv))) obj)) = Inl ?P"
    by (intro Workspace_fromJson_resources_panic) simp_all
  with h show "Unmarshal (JObject obj) = Inl ?P"
    by (simp add: Unmarshal_accepted)
next
  assume h: "json_accepted (JObject obj)
        \<and> is_json_string (json_member obj ''title'') \<and> is_json_string (json_member obj ''version'')
        \<and> json_member obj ''resources'' = Some (JArray (pre @ JObject d # rest))
        \<and> fromJson_each fromJson (json_objects pre) = Inr xs
        \<and> json_member d ''type'' = Some (JString ''document'')
        \<and> json_member d ''authors'' = Some (JArray (apre @ JObject a # arest))
        \<and> fromJson_each (\<lambda>obj. assert_Author (fromJson obj)) (json_objects apre) = Inr aus
        \<and> json_member a ''type'' = Some (JString ''author'')
        \<and> \<not> (is_json_string (json_member a ''firstname'') \<and> is_json_string (json_member a ''lastname'')
              \<and> is_json_string (json_member a ''email''))"
  let ?P = "InterfaceConversion ''interface {} is not string''"
  have "fromJson (rev (map (\<lambda>kv. (fst kv, json_value (snd kv))) a)) = Inl ?P"
    using h by (intro author_fromJson_panics) simp_all
  then have "assert_Author (fromJson (rev (map (\<lambda>kv. (fst kv, json_value (snd kv))) a))) = Inl ?P"
    by (simp add: assert_Author_def)
  with h have "fromJson_each (\<lambda>obj. assert_Author (fromJson obj))
                 (json_objects (apre @ JObject a # arest)) = Inl ?P"
    by (simp add: json_objects_append json_objects_JObject fromJson_each_append_panic
          del: fromJson_each.simps)
  with h have "fromJson (rev (map (\<lambda>kv. (fst kv, json_value (snd kv))) d)) = Inl ?P"
    by (intro document_fromJson_authors_panic) simp_all
  with h have "fromJson_each fromJson (json_objects (pre @ JObject d # rest)) = Inl ?P"
    by (simp add: json_objects_append json_objects_JObject fromJson_each_append_panic
          del: fromJson_each.simps)
  with h have "Workspace_fromJson fromJson (rev (map (\<lambda>kv. (fst kv, json_value (snd kv))) obj)) = Inl ?P"
    by (intro Workspace_fromJson_resources_panic) simp_all
  with h show "Unmarshal (JObject obj) = Inl ?P"
    by (simp add: Unmarshal_accepted)
next
  assume h: "json_accepted (JObject obj)
        \<and> is_json_string (json_member obj ''title'') \<and> is_json_string (json_member obj ''version'')
        \<and> json_member obj ''resources'' = Some (JArray [JObject a])
        \<and> json_member a ''type'' = Some (JString ''text'')
        \<and> \<not> is_json_string (json_member a ''value'')"
  let ?m = "rev (map (\<lambda>kv. (fst kv, json_value (snd kv))) a)"
  have "optString ?m ''type'' = ''text''"
    using h by (simp add: optString_json_value)
  moreover have "optString ?m ''value'' = []"
    using h by (auto simp: optString_json_value is_json_string_def split: option.splits json.splits)
  ultimately have "fromJson ?m = Inr (Span [])"
    by (subst fromJson.simps) (simp add: type_names Span_fromJson_def)
  moreover from h have acc: "json_accepted (JObject obj)" by simp
  ultimately show "\<exists>f v t. Unmarshal (JObject obj) = Inr (Inr (Workspace f v t [Span []]))"
    using h unfolding Unmarshal_accepted [OF acc] Workspace_fromJson_def map_of_json_value
      assert_string_json_value
    by (auto simp: is_json_string_def split: option.splits json.splits)
qed


theorem Unmarshal_required_string_panics_witness:
  "(\<exists>err. Unmarshal (JObject [(''version'', JString ''1''), (''format'', JNumber (10 ^ 400))])
       = Inr (Inl err))
   \<and> Unmarshal (JObject [(''title'', JNumber 7), (''version'', JString ''1'')])
     = Inl (InterfaceConversion ''interface {} is not string'')
   \<and> Unmarshal (JObject [(''title'', JString ''W''), (''version'', JString ''1''),
        (''resources'', JArray [JObject [(''type'', JString ''newline'')],
           JObject [(''type'', JString ''author''),
             (''firstname'', JString ''A''), (''lastname'', JString ''B'')]])])
     = Inl (InterfaceConversion ''interface {} is not string'')
   \<and> Unmarshal (JObject [(''title'', JString ''W''), (''version'', JString ''1''),
        (''resources'', JArray [JObject [(''type'', JString ''document''), (''id'', JString ''1234''),
           (''authors'', JArray [
              JObject [(''type'', JString ''author''), (''firstname'', JString ''A''),
                (''lastname'', JString ''B''), (''email'', JString ''a@b'')],
              JObject [(''type'', JString ''author''), (''firstname'', JString ''C''),
                (''email'', JNumber 1)]])]])])
     = Inl (InterfaceConversion ''interface {} is not string'')
   \<and> (\<exists>f v t. Unmarshal (JObject [(''title'', JString ''W''), (''version'', JString ''1''),
        (''resources'', JArray [JObject [(''type'', JString ''text'')]])])
     = Inr (Inr (Workspace f v t [Span []])))"
proof -
  let ?o1 = "[(''version'', JString ''1''), (''format'', JNumber (10 ^ 400))]"
  let ?o2 = "[(''title'', JNumber 7), (''version'', JString ''1'')]"
  let ?nl = "[(''type'', JString ''newline'')]"
  let ?a3 = "[(''type'', JString ''author''), (''firstname'', JString ''A''), (''lastname'', JString ''B'')]"
  let ?o3 = "[(''title'', JString ''W''), (''version'', JString ''1''),
        (''resources'', JArray [JObject ?nl, JObject ?a3])]"
  let ?a0 = "[(''type'', JString ''author''), (''firstname'', JString ''A''),
                (''lastname'', JString ''B''), (''email'', JString ''a@b'')]"
  let ?a4 = "[(''type'', JString ''author''), (''firstname'', JString ''C''), (''email'', JNumber 1)]"
  let ?d = "[(''type'', JString ''document''), (''id'', JString ''1234''),
           (''authors'', JArray [JObject ?a0, JObject ?a4])]"
  let ?o4 = "[(''title'', JString ''W''), (''version'', JString ''1''), (''resources'', JArray [JObject ?d])]"
  let ?t = "[(''type'', JString ''text'')]"
  let ?o5 = "[(''title'', JString ''W''), (''version'', JString ''1''), (''resources'', JArray [JObject ?t])]"
  have acc: "\<not> json_accepted (JObject ?o1)" "json_accepted (JObject ?o2)" "json_accepted (JObject ?o3)"
      "json_accepted (JObject ?o4)" "json_accepted (JObject ?o5)"
    by (simp_all add: json_accepted_def maxNestingDepth_def float64_overflows_def)
  have pre3: "fromJson_each fromJson (json_objects [JObject ?nl]) = Inr [Newline]"
    by (simp add: json_objects_def fromJson.simps optString_def type_names defaultType_fromJson_def)
  have pre4: "fromJson_each fromJson (json_objects []) = Inr []"
    by (simp add: json_objects_def)
  have apre: "fromJson_each (\<lambda>obj. assert_Author (fromJson obj)) (json_objects [JObject ?a0])
                = Inr [Author ''A'' ''B'' ''a@b'']"
    by (simp add: json_objects_def fromJson.simps optString_def type_names Author_fromJson_def
          assert_string_def assert_Author_def)
  have c1: "\<exists>err. Unmarshal (JObject ?o1) = Inr (Inl err)"
    by (rule Unmarshal_required_string_panics [THEN conjunct1, THEN mp]) (rule acc)
  have c2: "Unmarshal (JObject ?o2) = Inl (InterfaceConversion ''interface {} is not string'')"
    by (rule Unmarshal_required_string_panics [THEN conjunct2, THEN conjunct1, THEN mp])
       (simp add: acc json_member_def is_json_string_def)
  have c3: "Unmarshal (JObject ?o3) = Inl (InterfaceConversion ''interface {} is not string'')"
    by (rule Unmarshal_required_string_panics
          [where pre = "[JObject ?nl]" and a = ?a3 and rest = "[]" and xs = "[Newline]",
           THEN conjunct2, THEN conjunct2, THEN conjunct1, THEN mp])
       (simp add: acc pre3 json_member_def is_json_string_def)
  have c4: "Unmarshal (JObject ?o4) = Inl (InterfaceConversion ''interface {} is not string'')"
    by (rule Unmarshal_required_string_panics
          [where pre = "[]" and d = ?d and rest = "[]" and xs = "[]" and apre = "[JObject ?a0]"
             and a = ?a4 and arest = "[]" and aus = "[Author ''A'' ''B'' ''a@b'']",
           THEN conjunct2, THEN conjunct2, THEN conjunct2, THEN conjunct1, THEN mp])
       (simp add: acc pre4 apre json_member_def is_json_string_def)
  have c5: "\<exists>f v t. Unmarshal (JObject ?o5) = Inr (Inr (Workspace f v t [Span []]))"
    by (rule Unmarshal_required_string_panics
          [where a = ?t, THEN conjunct2, THEN conjunct2, THEN conjunct2, THEN conjunct2, THEN mp])
       (simp add: acc json_member_def is_json_string_def)
  from c1 c2 c3 c4 c5 show ?thesis by blast
qed

section \<open>Properties of the lookup\<close>

lemma ById_loop_find: "ById_loop rs ident = List.find (is_document_with_id ident) rs"
  by (induction rs) (auto simp: is_document_with_id_def split: Discriminator.splits)

text \<open>
  Claim C6. \<open>ById\<close> scans the top-level resources only: its result is the first resource
  that is a document with the given id, and nil when no top-level document has it. In a
  workspace with the documents \<open>A\<close> and \<open>B\<close> it finds \<open>A\<close> and \<open>B\<close> and does not find \<open>C\<close>, also
  when a document \<open>C\<close> sits inside a chapter.
\<close>

theorem ById_first_top_level_document:
  "ById (Workspace format version title resources) ident
     = List.find (is_document_with_id ident) resources
   \<and> ById (Workspace 1 ''1'' ''W'' [Document ''A'' ''a'' [] [], Document ''B'' ''b'' [] []]) ''A''
       = Some (Document ''A'' ''a'' [] [])
   \<and> ById (Workspace 1 ''1'' ''W'' [Document ''A'' ''a'' [] [], Document ''B'' ''b'' [] []]) ''B''
       = Some (Document ''B'' ''b'' [] [])
   \<and> ById (Workspace 1 ''1'' ''W'' [Document ''A'' ''a'' [] [], Document ''B'' ''b'' [] []]) ''C''
       = None
   \<and> ById (Workspace 1 ''1'' ''W''
         [Document ''A'' ''a'' [] [Chapter ''c'' 0 [Document ''C'' ''nested'' [] []]]]) ''C'' = None"
  by (simp add: ById_loop_find is_document_with_id_def)

section \<open>Properties of template files\<close>

lemma Ext_scan_suffix: "\<exists>pre. rev cs @ suffix = pre @ Ext_scan cs suffix"
proof (induction cs arbitrary: suffix)
  case Nil
  show ?case by simp
next
  case (Cons c cs)
  show ?case
  proof (cases "c = Separator \<or> c = CHR ''.''")
    case True
    then show ?thesis by auto
  next
    case False
    with Cons [of "c # suffix"] show ?thesis by simp
  qed
qed

lemma filepath_Ext_suffix: "\<exists>pre. path = pre @ filepath_Ext path"
  using Ext_scan_suffix [of "rev path" "[]"] by (simp add: filepath_Ext_def)

lemma strip_Ext:
  "length (filepath_Ext path) = n \<Longrightarrow> take (length path - n) path @ filepath_Ext path = path"
proof -
  assume n: "length (filepath_Ext path) = n"
  obtain pre where p: "path = pre @ filepath_Ext path"
    using filepath_Ext_suffix by blast
  then have "length path = length pre + n"
    using n by (metis length_append)
  then have "take (length path - n) path = pre"
    using p by (metis add_diff_cancel_right' append_eq_conv_conj)
  then show ?thesis using p by simp
qed

text \<open>
  Claim C5. For every template-project file, the transform and the destination filename
  follow from the extension of its base name, compared without regard to case: with
  \<open>.tmpl\<close> the file gets a text-flavor template transform and the base name without the
  extension, with \<open>.gohtml\<close> an HTML-flavor template transform and the base name without
  the extension (in both cases unless parsing the template fails, which is the error of
  \<open>NewFile\<close>), and with any other or no extension the full base name and the copy
  transform, which writes exactly the bytes it read from the source.
\<close>

theorem NewFile_dispatch:
  "(strings_ToLower (filepath_Ext (filepath_Base fname)) = textTemplate \<longrightarrow>
      dst @ filepath_Ext (filepath_Base fname) = filepath_Base fname \<longrightarrow>
      NewFile e fname tr =
        (case template_ParseFiles e tr TextFlavor (filepath_Base fname) fname of
           None \<Rightarrow> Inr \<lparr>srcFile = fname, dstFilename = dst,
                        transformer = TextTransformer (filepath_Base fname)\<rparr>
         | Some err \<Rightarrow> Inl (Errorf ''failed to parse text template %s: %w'' [fname] (Some err)),
         tr @ [Call_ParseFiles TextFlavor (filepath_Base fname) fname]))
   \<and> (strings_ToLower (filepath_Ext (filepath_Base fname)) = htmlTemplate \<longrightarrow>
      dst @ filepath_Ext (filepath_Base fname) = filepath_Base fname \<longrightarrow>
      NewFile e fname tr =
        (case template_ParseFiles e tr HtmlFlavor (filepath_Base fname) fname of
           None \<Rightarrow> Inr \<lparr>srcFile = fname, dstFilename = dst,
                        transformer = HtmlTransformer (filepath_Base fname)\<rparr>
         | Some err \<Rightarrow> Inl (Errorf ''failed to parse html template %s: %w'' [fname] (Some err)),
         tr @ [Call_ParseFiles HtmlFlavor (filepath_Base fname) fname]))
   \<and> (strings_ToLower (filepath_Ext (filepath_Base fname)) \<notin> {textTemplate, htmlTemplate} \<longrightarrow>
      NewFile e fname tr =
        (Inr \<lparr>srcFile = fname, dstFilename = filepath_Base fname,
               transformer = CopyTransformer fname\<rparr>, tr))
   \<and> (os_Open e tr src = Inr bytes \<longrightarrow> io_Write e (tr @ [Call_Open src]) out bytes = None \<longrightarrow>
      Transform e (CopyTransformer src) model out tr
        = (None, tr @ [Call_Open src, Call_Write out bytes]))"
proof (intro conjI impI)
  assume ext: "strings_ToLower (filepath_Ext (filepath_Base fname)) = textTemplate"
    and dst: "dst @ filepath_Ext (filepath_Base fname) = filepath_Base fname"
  from ext have "length (filepath_Ext (filepath_Base fname)) = length textTemplate"
    by (metis strings_ToLower_def length_map)
  from strip_Ext [OF this] dst
  have "take (length (filepath_Base fname) - length textTemplate) (filepath_Base fname) = dst"
    by (metis append_same_eq)
  with ext show "NewFile e fname tr =
        (case template_ParseFiles e tr TextFlavor (filepath_Base fname) fname of
           None \<Rightarrow> Inr \<lparr>srcFile = fname, dstFilename = dst,
                        transformer = TextTransformer (filepath_Base fname)\<rparr>
         | Some err \<Rightarrow> Inl (Errorf ''failed to parse text template %s: %w'' [fname] (Some err)),
         tr @ [Call_ParseFiles TextFlavor (filepath_Base fname) fname])"
    by (simp add: NewFile_def Let_def htmlTemplate_def textTemplate_def split: option.splits)
next
  assume ext: "strings_ToLower (filepath_Ext (filepath_Base fname)) = htmlTemplate"
    and dst: "dst @ filepath_Ext (filepath_Base fname) = filepath_Base fname"
  from ext have "length (filepath_Ext (filepath_Base fname)) = length htmlTemplate"
    by (metis strings_ToLower_def length_map)
  from strip_Ext [OF this] dst
  have "take (length (filepath_Base fname) - length htmlTemplate) (filepath_Base fname) = dst"
    by (metis append_same_eq)
  with ext show "NewFile e fname tr =
        (case template_ParseFiles e tr HtmlFlavor (filepath_Base fname) fname of
           None \<Rightarrow> Inr \<lparr>srcFile = fname, dstFilename = dst,
                        transformer = HtmlTransformer (filepath_Base fname)\<rparr>
         | Some err \<Rightarrow> Inl (Errorf ''failed to parse html template %s: %w'' [fname] (Some err)),
         tr @ [Call_ParseFiles HtmlFlavor (filepath_Base fname) fname])"
    by (simp add: NewFile_def Let_def split: option.splits)
next
  assume "strings_ToLower (filepath_Ext (filepath_Base fname)) \<notin> {textTemplate, htmlTemplate}"
  then show "NewFile e fname tr =
        (Inr \<lparr>srcFile = fname, dstFilename = filepath_Base fname,
               transformer = CopyTransformer fname\<rparr>, tr)"
    by (simp add: NewFile_def Let_def)
next
  assume "os_Open e tr src = Inr bytes" "io_Write e (tr @ [Call_Open src]) out bytes = None"
  then show "Transform e (CopyTransformer src) model out tr
        = (None, tr @ [Call_Open src, Call_Write out bytes])"
    by (simp add: CopyTransformer_Transform_def Let_def)
qed

theorem NewFile_dispatch_witness:
  "NewFile quiet_env ''/tpl/index.tmpl'' [] =
     (Inr \<lparr>srcFile = ''/tpl/index.tmpl'', dstFilename = ''index'',
            transformer = TextTransformer ''index.tmpl''\<rparr>,
      [Call_ParseFiles TextFlavor ''index.tmpl'' ''/tpl/index.tmpl''])
   \<and> NewFile quiet_env ''/tpl/sub/Page.GoHTML'' [] =
     (Inr \<lparr>srcFile = ''/tpl/sub/Page.GoHTML'', dstFilename = ''Page'',
            transformer = HtmlTransformer ''Page.GoHTML''\<rparr>,
      [Call_ParseFiles HtmlFlavor ''Page.GoHTML'' ''/tpl/sub/Page.GoHTML''])
   \<and> NewFile quiet_env ''/tpl/logo.png'' [] =
     (Inr \<lparr>srcFile = ''/tpl/logo.png'', dstFilename = ''logo.png'',
            transformer = CopyTransformer ''/tpl/logo.png''\<rparr>, [])
   \<and> NewFile quiet_env ''/tpl/latexmkrc'' [] =
     (Inr \<lparr>srcFile = ''/tpl/latexmkrc'', dstFilename = ''latexmkrc'',
            transformer = CopyTransformer ''/tpl/latexmkrc''\<rparr>, [])
   \<and> Transform quiet_env (CopyTransformer ''/tpl/logo.png'') (Span []) ''/b/logo.png'' []
       = (None, [Call_Open ''/tpl/logo.png'', Call_Write ''/b/logo.png'' ''PNG''])"
proof -
  have base:
    "filepath_Base ''/tpl/index.tmpl'' = ''index.tmpl''"
    "filepath_Base ''/tpl/sub/Page.GoHTML'' = ''Page.GoHTML''"
    "filepath_Base ''/tpl/logo.png'' = ''logo.png''"
    "filepath_Base ''/tpl/latexmkrc'' = ''latexmkrc''"
    by (simp_all add: filepath_Base_def Separator_def)
  have ext:
    "filepath_Ext ''index.tmpl'' = ''.tmpl''"
    "filepath_Ext ''Page.GoHTML'' = ''.GoHTML''"
    "filepath_Ext ''logo.png'' = ''.png''"
    "filepath_Ext ''latexmkrc'' = []"
    by (simp_all add: filepath_Ext_def Separator_def)
  have low1: "strings_ToLower ''.tmpl'' = ''.tmpl''" by code_simp
  have low2: "strings_ToLower ''.GoHTML'' = ''.gohtml''" by code_simp
  have low3: "strings_ToLower ''.png'' = ''.png''" by code_simp
  have low4: "strings_ToLower [] = []" by code_simp
  note low = low1 low2 low3 low4
  show ?thesis
    using NewFile_dispatch [of "''/tpl/index.tmpl''" "''index''" quiet_env "[]"]
      NewFile_dispatch [of "''/tpl/sub/Page.GoHTML''" "''Page''" quiet_env "[]"]
      NewFile_dispatch [of "''/tpl/logo.png''" _ quiet_env "[]"]
      NewFile_dispatch [of "''/tpl/latexmkrc''" _ quiet_env "[]"]
      NewFile_dispatch [of _ _ quiet_env "[]" "''/tpl/logo.png''" "''PNG''" "''/b/logo.png''" "Span []"]
    by (simp add: base ext low textTemplate_def htmlTemplate_def quiet_env_def)
qed

section \<open>Properties of the staging directories\<close>

subsection \<open>The digest has 28 bytes and its hexadecimal form determines it\<close>

lemma length_sha_round: "length s = 8 \<Longrightarrow> length (sha_round s kw) = 8"
  by (cases "(s, kw)" rule: sha_round.cases) (simp_all add: Let_def)

lemma length_foldl_sha_round: "length s = 8 \<Longrightarrow> length (foldl sha_round s kws) = 8"
  by (induction kws arbitrary: s) (simp_all add: length_sha_round)

lemma length_sha_block: "length h = 8 \<Longrightarrow> length (sha_block h p) = 8"
  by (simp add: sha_block_def length_foldl_sha_round)

lemma length_foldl_sha_block: "length h = 8 \<Longrightarrow> length (foldl sha_block h ps) = 8"
  by (induction ps arbitrary: h) (simp_all add: length_sha_block)

lemma length_concat_be_bytes: "length (concat (map be_bytes ws)) = 4 * length ws"
  by (induction ws) (simp_all add: be_bytes_def)

lemma length_Sum224: "length (Sum224 d) = 28"
proof -
  have "length (foldl sha_block init224 (chunks 64 (map of_char d @ sha_pad (length d)))) = 8"
    by (rule length_foldl_sha_block) (simp add: init224_def)
  then show ?thesis
    by (simp add: Sum224_def Let_def length_concat_be_bytes)
qed

lemma length_hex: "length (hex_EncodeToString src) = 2 * length src"
  by (induction src) (simp_all add: hex_EncodeToString_def)

lemma unat_hi: "unat (drop_bit 4 (v :: 8 word)) = unat v div 16"
  by (simp add: drop_bit_eq_div unat_div)

lemma and15: "(v :: 8 word) AND 0x0f = take_bit 4 v"
  by (simp add: take_bit_eq_mask mask_eq_exp_minus_1)

lemma unat_lo: "unat ((v :: 8 word) AND 0x0f) = unat v mod 16"
  by (simp add: and15 take_bit_eq_mod unat_mod)

lemma nibbles_eq:
  fixes v w :: "8 word"
  assumes "drop_bit 4 v = drop_bit 4 w" "v AND 0x0f = w AND 0x0f"
  shows "v = w"
proof -
  have "unat v div 16 = unat w div 16" "unat v mod 16 = unat w mod 16"
    using assms unat_hi unat_lo by metis+
  then have "unat v = unat w"
    by (metis div_mult_mod_eq)
  then show ?thesis by (simp add: word_unat_eq_iff)
qed

lemma nibble_less: "unat (drop_bit 4 (v :: 8 word)) < 16" "unat (v AND 0x0f) < 16"
proof -
  have "unat v < 256"
    using unsigned_less [of v, where 'a = nat] by simp
  then show "unat (drop_bit 4 v) < 16" by (simp add: unat_hi)
  show "unat (v AND 0x0f) < 16" by (simp add: unat_lo)
qed

lemma hextable_nth_in: "i < 16 \<Longrightarrow> hextable ! i \<in> set hextable"
  by (rule nth_mem) (simp add: hextable_def)

lemma set_hex: "set (hex_EncodeToString src) \<subseteq> set hextable"
  unfolding hex_EncodeToString_def
  by (induction src) (auto intro: hextable_nth_in nibble_less)

lemma hextable_inj: "i < 16 \<Longrightarrow> j < 16 \<Longrightarrow> hextable ! i = hextable ! j \<Longrightarrow> i = j"
proof -
  have "distinct hextable" by (simp add: hextable_def)
  moreover have "length hextable = 16" by (simp add: hextable_def)
  ultimately show "i < 16 \<Longrightarrow> j < 16 \<Longrightarrow> hextable ! i = hextable ! j \<Longrightarrow> i = j"
    by (simp add: nth_eq_iff_index_eq)
qed

lemma hex_inj: "hex_EncodeToString xs = hex_EncodeToString ys \<Longrightarrow> xs = ys"
proof (induction xs arbitrary: ys)
  case Nil
  then show ?case
    using length_hex [of ys] length_hex [of "[]"] by simp
next
  case (Cons x xs)
  then obtain y ys' where ys: "ys = y # ys'"
    using length_hex [of ys] length_hex [of "x # xs"] by (cases ys) auto
  from Cons.prems have h: "hextable ! unat (drop_bit 4 x) = hextable ! unat (drop_bit 4 y)"
      "hextable ! unat (x AND 0x0f) = hextable ! unat (y AND 0x0f)"
      "hex_EncodeToString xs = hex_EncodeToString ys'"
    by (simp_all add: ys hex_EncodeToString_def)
  have "unat (drop_bit 4 x) = unat (drop_bit 4 y)"
    using h(1) by (rule hextable_inj [OF nibble_less(1) nibble_less(1)])
  then have hi: "drop_bit 4 x = drop_bit 4 y"
    by (rule word_unat_eq_iff [THEN iffD2])
  have "unat (x AND 0x0f) = unat (y AND 0x0f)"
    using h(2) by (rule hextable_inj [OF nibble_less(2) nibble_less(2)])
  then have lo: "x AND 0x0f = y AND 0x0f"
    by (rule word_unat_eq_iff [THEN iffD2])
  have "x = y"
    using hi lo by (rule nibbles_eq)
  with Cons.IH [OF h(3)] show ?case by (simp add: ys)
qed

subsection \<open>Joining a directory with two plain elements\<close>

lemma split_slash_nonempty: "split_slash s \<noteq> []"
  by (induction s) (auto split: list.splits)

lemma split_slash_append: "split_slash (p @ Separator # q) = split_slash p @ split_slash q"
proof (induction p)
  case Nil
  show ?case by simp
next
  case (Cons c p)
  then show ?case
    using split_slash_nonempty [of p] by (cases "split_slash p") auto
qed

lemma split_slash_plain: "Separator \<notin> set a \<Longrightarrow> split_slash a = [a]"
  by (induction a) auto

lemma clean_step_plain: "plain a \<Longrightarrow> clean_step rooted out a = out @ [a]"
  by (simp add: clean_step_def plain_def)

lemma join_slash_snoc2:
  "join_slash (xs @ [a, h]) = (if xs = [] then [] else join_slash xs @ [Separator]) @ a @ Separator # h"
  by (induction xs rule: join_slash.induct) auto

lemma join_slash_nonempty: "plain h \<Longrightarrow> join_slash (xs @ [a, h]) \<noteq> []"
  by (simp add: join_slash_snoc2)

lemma filepath_Clean_snoc2:
  assumes a: "plain a" and h: "plain h" and p: "p = pre @ a @ Separator # h"
    and pre: "pre = [] \<or> (\<exists>tmp. tmp \<noteq> [] \<and> pre = tmp @ [Separator])"
  shows "filepath_Clean p =
     (let rooted = (hd p = Separator);
          out = foldl (clean_step rooted) [] (if pre = [] then [] else split_slash (butlast pre))
      in (if rooted then [Separator] else []) @ (if out = [] then [] else join_slash out @ [Separator])
           @ a @ Separator # h)"
proof -
  have ne: "p \<noteq> []" using p by simp
  have sp: "split_slash p = (if pre = [] then [] else split_slash (butlast pre)) @ [a, h]"
  proof (cases "pre = []")
    case True
    then show ?thesis
      using a h p by (simp add: split_slash_append split_slash_plain plain_def)
  next
    case False
    then obtain tmp where t: "pre = tmp @ [Separator]" using pre by blast
    then have "p = tmp @ Separator # (a @ Separator # h)" using p by simp
    then have "split_slash p = split_slash tmp @ split_slash a @ split_slash h"
      by (simp add: split_slash_append)
    then show ?thesis
      using a h t by (simp add: split_slash_plain plain_def)
  qed
  define rooted where "rooted = (hd p = Separator)"
  define st where "st = foldl (clean_step rooted) [] (if pre = [] then [] else split_slash (butlast pre))"
  have fo: "foldl (clean_step rooted) [] (split_slash p) = st @ [a, h]"
    using a h by (simp add: sp st_def clean_step_plain)
  have out: "join_slash (st @ [a, h]) = (if st = [] then [] else join_slash st @ [Separator]) @ a @ Separator # h"
    by (rule join_slash_snoc2)
  have ne2: "join_slash (st @ [a, h]) \<noteq> []"
    by (simp add: out)
  have "filepath_Clean p = (if rooted then Separator # join_slash (st @ [a, h]) else join_slash (st @ [a, h]))"
  proof (cases rooted)
    case True
    then have "hd p = Separator" by (simp add: rooted_def)
    moreover from fo True have "foldl (clean_step True) [] (split_slash p) = st @ [a, h]" by simp
    ultimately show ?thesis
      using ne True by (simp add: filepath_Clean_def Let_def del: join_slash.simps)
  next
    case False
    then have "hd p \<noteq> Separator" by (simp add: rooted_def)
    moreover from fo False have "foldl (clean_step False) [] (split_slash p) = st @ [a, h]" by simp
    ultimately show ?thesis
      using ne False ne2 by (simp add: filepath_Clean_def Let_def del: join_slash.simps)
  qed
  then show ?thesis
    unfolding Let_def rooted_def [symmetric] st_def [symmetric] out by simp
qed

lemma filepath_Join3:
  assumes a: "plain a" and h: "plain h"
  shows "filepath_Join [tmp, a, h] = join_prefix tmp @ a @ Separator # h"
proof (cases "tmp = []")
  case True
  have ne: "a \<noteq> []" "h \<noteq> []" using a h by (auto simp: plain_def)
  have hd: "hd (a @ Separator # h) \<noteq> Separator"
    using a by (cases a) (auto simp: plain_def)
  have "filepath_Join [tmp, a, h] = filepath_Clean (a @ Separator # h)"
    using True ne by (simp add: filepath_Join_def)
  also have "\<dots> = a @ Separator # h"
    using filepath_Clean_snoc2 [OF a h, of "a @ Separator # h" "[]"] hd by simp
  finally show ?thesis using True by (simp add: join_prefix_def)
next
  case False
  have ne: "a \<noteq> []" "h \<noteq> []" using a h by (auto simp: plain_def)
  have hd: "hd (tmp @ Separator # a @ Separator # h) = hd tmp"
    using False by simp
  have "filepath_Join [tmp, a, h] = filepath_Clean (tmp @ Separator # a @ Separator # h)"
    using False ne by (simp add: filepath_Join_def)
  also have "\<dots> = join_prefix tmp @ a @ Separator # h"
    using filepath_Clean_snoc2 [OF a h, of "tmp @ Separator # a @ Separator # h" "tmp @ [Separator]"]
      False hd
    by (simp add: join_prefix_def Let_def)
  finally show ?thesis .
qed

lemma plain_hex_Sum224: "plain (hex_EncodeToString (Sum224 d))"
proof -
  have len: "length (hex_EncodeToString (Sum224 d)) = 56"
    by (simp add: length_hex length_Sum224)
  have "Separator \<notin> set hextable" by (simp add: hextable_def Separator_def)
  then have "Separator \<notin> set (hex_EncodeToString (Sum224 d))"
    using set_hex by blast
  moreover have "hex_EncodeToString (Sum224 d) \<noteq> []" "hex_EncodeToString (Sum224 d) \<noteq> ''.''"
      "hex_EncodeToString (Sum224 d) \<noteq> ''..''"
    using len by auto
  ultimately show ?thesis by (simp add: plain_def)
qed

lemma plain_names: "plain ''transform''" "plain ''template''"
  by (simp_all add: plain_def Separator_def)

lemma transformTmpDir_eq:
  "transformTmpDir b r =
     join_prefix (tmpDir b) @ ''transform'' @ Separator # hex_EncodeToString (Sum224 (Id r @ Template r))"
  by (simp add: transformTmpDir_def filepath_Join3 plain_names plain_hex_Sum224)

lemma templateDstDir_eq:
  "templateDstDir b url =
     join_prefix (tmpDir b) @ ''template'' @ Separator # hex_EncodeToString (Sum224 url)"
  by (simp add: templateDstDir_def filepath_Join3 plain_names plain_hex_Sum224)

text \<open>
  Claim C4, as stated: two rules whose pairs of identifier and template differ have distinct
  staging directories. The identifier and the template are concatenated without a
  separator, so the rules \<open>(a, bc)\<close> and \<open>(ab, c)\<close> get the same directory.
\<close>

theorem transformTmpDir_collision:
  "(Id \<lparr>Id = ''a'', Template = ''bc'', Name = ''x''\<rparr>, Template \<lparr>Id = ''a'', Template = ''bc'', Name = ''x''\<rparr>)
     \<noteq> (Id \<lparr>Id = ''ab'', Template = ''c'', Name = ''y''\<rparr>, Template \<lparr>Id = ''ab'', Template = ''c'', Name = ''y''\<rparr>)
   \<and> transformTmpDir book_build \<lparr>Id = ''a'', Template = ''bc'', Name = ''x''\<rparr>
       = transformTmpDir book_build \<lparr>Id = ''ab'', Template = ''c'', Name = ''y''\<rparr>"
  by (simp add: transformTmpDir_def)

text \<open>
  Claim C4, amended. Two rules get distinct transform staging directories whenever the
  SHA-224 digests of their concatenations of identifier and template differ; two rules with
  the same template and different identifiers have different concatenations; and every
  transform staging directory is distinct from every template cache directory.
\<close>

theorem transformTmpDir_distinct:
  "(Sum224 (Id r1 @ Template r1) \<noteq> Sum224 (Id r2 @ Template r2)
      \<longrightarrow> transformTmpDir b r1 \<noteq> transformTmpDir b r2)
   \<and> (Template r1 = Template r2 \<and> Id r1 \<noteq> Id r2 \<longrightarrow> Id r1 @ Template r1 \<noteq> Id r2 @ Template r2)
   \<and> transformTmpDir b r \<noteq> templateDstDir b url"
proof (intro conjI impI)
  assume "Sum224 (Id r1 @ Template r1) \<noteq> Sum224 (Id r2 @ Template r2)"
  then show "transformTmpDir b r1 \<noteq> transformTmpDir b r2"
    using hex_inj by (auto simp: transformTmpDir_eq)
next
  assume "Template r1 = Template r2 \<and> Id r1 \<noteq> Id r2"
  then show "Id r1 @ Template r1 \<noteq> Id r2 @ Template r2" by simp
next
  show "transformTmpDir b r \<noteq> templateDstDir b url"
    by (simp add: transformTmpDir_eq templateDstDir_eq)
qed

theorem transformTmpDir_distinct_witness:
  "Sum224 ''aT'' \<noteq> Sum224 ''bT''
   \<and> transformTmpDir book_build \<lparr>Id = ''a'', Template = ''T'', Name = ''x''\<rparr>
       \<noteq> transformTmpDir book_build \<lparr>Id = ''b'', Template = ''T'', Name = ''y''\<rparr>
   \<and> ''a'' @ ''T'' \<noteq> ''b'' @ ''T''
   \<and> transformTmpDir book_build \<lparr>Id = ''a'', Template = ''T'', Name = ''x''\<rparr>
       \<noteq> templateDstDir book_build ''https://example.org/t.git''"
proof -
  have d: "Sum224 ''aT'' \<noteq> Sum224 ''bT''" by code_simp
  show ?thesis
    using d transformTmpDir_distinct [of "\<lparr>Id = ''a'', Template = ''T'', Name = ''x''\<rparr>"
        "\<lparr>Id = ''b'', Template = ''T'', Name = ''y''\<rparr>" book_build
        "\<lparr>Id = ''a'', Template = ''T'', Name = ''x''\<rparr>" "''https://example.org/t.git''"]
    by simp
qed

section \<open>Properties of \<open>Build.Apply\<close>\<close>

lemma provideTemplate_trace:
  "\<exists>evs. snd (provideTemplate e b (Template r) tr) = tr @ evs \<and> set evs \<subseteq> set (provisioning_calls b r)"
  by (auto simp: provideTemplate_def Build_exec_def provisioning_calls_def Let_def
        split: option.splits prod.splits)

lemma Apply_body_missing:
  "ById (workspace b) (Id r) = None \<Longrightarrow>
   Apply_body e b r tr =
     (case provideTemplate e b (Template r) tr of
        (Inl err, tr') \<Rightarrow> (Inr (Some (Errorf ''unable to provide template: %w'' [] (Some err))), tr')
      | (Inr template, tr') \<Rightarrow> (Inr (Some (not_found (Id r))), tr'))"
  by (simp add: Apply_body_def not_found_def split: prod.splits sum.splits)

lemma Apply_body_missing_fails:
  "ById (workspace b) (Id r) = None \<Longrightarrow> fst (Apply_body e b r tr) \<noteq> Inr None"
  by (simp add: Apply_body_missing split: prod.splits sum.splits)

lemma Apply_rules_missing_head:
  "ById (workspace b) (Id r) = None \<Longrightarrow> Apply_rules e b (r # rs) tr = Apply_body e b r tr"
  using Apply_body_missing_fails [of b r e tr]
  by (cases "Apply_body e b r tr") (auto split: sum.splits option.splits)

lemma Apply_rules_Cons_nil:
  "Apply_rules e b (r # rs) tr = (Inr None, tr') \<Longrightarrow>
   ById (workspace b) (Id r) \<noteq> None \<and> (\<exists>tr1. Apply_rules e b rs tr1 = (Inr None, tr'))"
  using Apply_body_missing_fails [of b r e tr]
  by (cases "Apply_body e b r tr") (auto split: sum.splits option.splits)

lemma Apply_rules_append:
  "Apply_rules e b pre tr = (Inr None, tr1) \<Longrightarrow>
   Apply_rules e b (pre @ rs) tr = Apply_rules e b rs tr1"
proof (induction pre arbitrary: tr)
  case Nil
  then show ?case by simp
next
  case (Cons p pre)
  from Cons.prems show ?case
    by (cases "Apply_body e b p tr") (auto simp: Cons.IH split: sum.splits option.splits)
qed

lemma Apply_rules_missing_fails:
  "r \<in> set rs \<Longrightarrow> ById (workspace b) (Id r) = None \<Longrightarrow> fst (Apply_rules e b rs tr) \<noteq> Inr None"
proof (induction rs arbitrary: tr)
  case Nil
  then show ?case by simp
next
  case (Cons x xs)
  show ?case
  proof
    assume "fst (Apply_rules e b (x # xs) tr) = Inr None"
    then obtain tr' where "Apply_rules e b (x # xs) tr = (Inr None, tr')"
      by (cases "Apply_rules e b (x # xs) tr") auto
    from Apply_rules_Cons_nil [OF this] obtain tr1
      where x: "ById (workspace b) (Id x) \<noteq> None" and xs: "Apply_rules e b xs tr1 = (Inr None, tr')"
      by blast
    from x Cons.prems have "r \<in> set xs" by auto
    from Cons.IH [OF this Cons.prems(2), of tr1] xs show False by simp
  qed
qed

text \<open>
  Claim C7, as stated: a build with a rule whose identifier is not among the top-level
  documents makes \<open>Apply\<close> return the not-found error for that identifier. \<open>Apply\<close> provides
  the template of a rule before it looks the identifier up, and it builds the rules in
  order. So when the template of the rule \<open>C\<close> does not exist, \<open>Apply\<close> returns the error of
  \<open>provideTemplate\<close>; and when an earlier rule names its template \<open>././tpl\<close>, whose file
  \<open>tpl/a\<close> has a shorter path than the template, \<open>Apply\<close> panics in \<open>File.Apply\<close> and returns
  nothing.
\<close>

theorem Apply_missing_id_other_outcomes:
  "ById (workspace book_build) ''C'' = None
   \<and> Apply missing_template_env
        (book_build\<lparr>rules := [\<lparr>Id = ''C'', Template = ''tpl'', Name = ''out''\<rparr>]\<rparr>) []
      = (Inr (Some (Errorf ''unable to provide template: %w'' []
                 (Some (Errorf ''cannot find template %s: %w'' [''tpl'']
                    (Some (ErrExternal ''stat: no such file or directory'')))))),
         [Call_Stat ''tpl''])
   \<and> fst (Apply short_path_env
        (book_build\<lparr>rules := [\<lparr>Id = ''1234'', Template = ''././tpl'', Name = ''mybook''\<rparr>,
                                \<lparr>Id = ''C'', Template = ''tpl'', Name = ''out''\<rparr>]\<rparr>) [])
      = Inl SliceBoundsOutOfRange"
proof -
  let ?c = "\<lparr>Id = ''C'', Template = ''tpl'', Name = ''out''\<rparr>"
  let ?r = "\<lparr>Id = ''1234'', Template = ''././tpl'', Name = ''mybook''\<rparr>"
  let ?b1 = "book_build\<lparr>rules := [?c]\<rparr>"
  let ?b2 = "book_build\<lparr>rules := [?r, ?c]\<rparr>"
  let ?doc = "Document ''1234'' [] [] []"
  have none: "ById (workspace book_build) ''C'' = None"
    by (simp add: book_build_def)
  have low: "strings_ToLower ''tpl'' = ''tpl''" "strings_ToLower ''././tpl'' = ''././tpl''"
      "strings_ToLower [] = []"
    by code_simp+
  have p1: "provideTemplate missing_template_env ?b1 ''tpl'' [] =
      (Inl (Errorf ''cannot find template %s: %w'' [''tpl'']
              (Some (ErrExternal ''stat: no such file or directory''))), [Call_Stat ''tpl''])"
    by (simp add: provideTemplate_def isUrl_def low strings_HasPrefix_def
          missing_template_env_def quiet_env_def)
  have a1: "Apply missing_template_env ?b1 [] =
      (Inr (Some (Errorf ''unable to provide template: %w'' []
                 (Some (Errorf ''cannot find template %s: %w'' [''tpl'']
                    (Some (ErrExternal ''stat: no such file or directory'')))))),
         [Call_Stat ''tpl''])"
    by (simp add: Apply_def Apply_body_def p1)
  have p2: "provideTemplate short_path_env ?b2 ''././tpl'' [] = (Inr ''././tpl'', [Call_Stat ''././tpl''])"
    by (simp add: provideTemplate_def isUrl_def low strings_HasPrefix_def
          short_path_env_def quiet_env_def)
  have byid: "ById (workspace book_build) ''1234'' = Some ?doc"
    by (simp add: book_build_def)
  define bd where "bd = transformTmpDir ?b2 ?r"
  have bd: "bd = ''/tmp/wdydoc1/transform/'' @ hex_EncodeToString (Sum224 ''1234././tpl'')"
    by (simp add: bd_def transformTmpDir_eq book_build_def join_prefix_def Separator_def clean_step_def)
  have j: "filepath_Join [''././tpl'', ''a''] = ''tpl/a''"
    by (simp add: filepath_Join_def filepath_Clean_def Separator_def clean_step_def)
  have base: "filepath_Base ''tpl/a'' = ''a''"
    by (simp add: filepath_Base_def Separator_def)
  have ext: "filepath_Ext ''a'' = []"
    by (simp add: filepath_Ext_def Separator_def)
  have nf: "NewFile short_path_env ''tpl/a'' t =
     (Inr \<lparr>srcFile = ''tpl/a'', dstFilename = ''a'', transformer = CopyTransformer ''tpl/a''\<rparr>, t)" for t
    by (simp add: NewFile_def Let_def base ext low htmlTemplate_def textTemplate_def)
  have wk: "filepath_Walk short_path_env t p = WalkDir ''tpl'' None [WalkFile ''a'']" for t p
    by (simp add: short_path_env_def quiet_env_def)
  define tpl where "tpl = \<lparr>Template.dir = ''././tpl'', buildDir = bd,
      files = [\<lparr>srcFile = ''tpl/a'', dstFilename = ''a'', transformer = CopyTransformer ''tpl/a''\<rparr>]\<rparr>"
  have rt: "ReadTemplate short_path_env ''././tpl'' bd [Call_Stat ''././tpl'']
      = ((tpl, None), [Call_Stat ''././tpl'', Call_Walk ''././tpl''])"
    by (simp add: ReadTemplate_def ReadTemplate_walkFn_def wk bd strings_HasPrefix_def
          j nf tpl_def Let_def)
  have rm: "os_RemoveAll short_path_env t d = None" "os_MkdirAll short_path_env t d = None" for t d
    by (simp_all add: short_path_env_def quiet_env_def)
  have tb: "fst (Template_Build short_path_env tpl ?doc t) = Inl SliceBoundsOutOfRange" for t
    by (simp add: Template_Build_def File_Apply_def tpl_def rm Let_def)
  obtain tr2 where b: "Template_Build short_path_env tpl ?doc [Call_Stat ''././tpl'', Call_Walk ''././tpl'']
      = (Inl SliceBoundsOutOfRange, tr2)"
    using tb [of "[Call_Stat ''././tpl'', Call_Walk ''././tpl'']"]
    by (cases "Template_Build short_path_env tpl ?doc [Call_Stat ''././tpl'', Call_Walk ''././tpl'']") auto
  have "fst (Apply_body short_path_env ?b2 ?r []) = Inl SliceBoundsOutOfRange"
    by (simp add: Apply_body_def p2 byid rt [unfolded bd_def] b)
  then have "fst (Apply_rules short_path_env ?b2 [?r, ?c] []) = Inl SliceBoundsOutOfRange"
    by (cases "Apply_body short_path_env ?b2 ?r []") (auto simp del: Apply_rules.simps(2) simp add: Apply_rules.simps(2) [of _ _ ?r])
  then have a2: "fst (Apply short_path_env ?b2 []) = Inl SliceBoundsOutOfRange"
    by (simp add: Apply_def del: Apply_rules.simps)
  from none a1 a2 show ?thesis by simp
qed

text \<open>
  Claim C7, amended. When the identifier of a rule is not among the top-level documents of
  the workspace and the rules before it have been applied without an error, \<open>Apply\<close> returns
  an error for this rule: the error of providing its template if that fails, and the
  not-found error for its identifier otherwise. The only calls made for the rule are those
  of \<open>provideTemplate\<close>, so the output folder is not created and nothing is copied for it.
  A build that contains such a rule never returns nil: it returns an error, or it panics
  while an earlier rule is built.
\<close>

theorem Apply_missing_id_fails:
  "(ById (workspace b) (Id r) = None \<and> Apply_rules e b pre tr = (Inr None, tr1) \<longrightarrow>
      Apply_rules e b (pre @ r # rs) tr =
        (case provideTemplate e b (Template r) tr1 of
           (Inl err, tr') \<Rightarrow> (Inr (Some (Errorf ''unable to provide template: %w'' [] (Some err))), tr')
         | (Inr template, tr') \<Rightarrow> (Inr (Some (not_found (Id r))), tr'))
      \<and> (\<exists>evs. snd (Apply_rules e b (pre @ r # rs) tr) = tr1 @ evs
                 \<and> set evs \<subseteq> set (provisioning_calls b r)))
   \<and> (r \<in> set (rules b) \<and> ById (workspace b) (Id r) = None \<longrightarrow>
        (\<exists>err. fst (Apply e b tr) = Inr (Some err)) \<or> (\<exists>p. fst (Apply e b tr) = Inl p))"
proof (intro conjI impI)
  assume h: "ById (workspace b) (Id r) = None \<and> Apply_rules e b pre tr = (Inr None, tr1)"
  then have "Apply_rules e b (pre @ r # rs) tr = Apply_rules e b (r # rs) tr1"
    by (simp add: Apply_rules_append del: Apply_rules.simps)
  also have "\<dots> = Apply_body e b r tr1"
    using h by (intro Apply_rules_missing_head) simp
  finally have eq: "Apply_rules e b (pre @ r # rs) tr = Apply_body e b r tr1" .
  have body: "Apply_body e b r tr1 =
        (case provideTemplate e b (Template r) tr1 of
           (Inl err, tr') \<Rightarrow> (Inr (Some (Errorf ''unable to provide template: %w'' [] (Some err))), tr')
         | (Inr template, tr') \<Rightarrow> (Inr (Some (not_found (Id r))), tr'))"
    using h by (intro Apply_body_missing) simp
  show "Apply_rules e b (pre @ r # rs) tr =
        (case provideTemplate e b (Template r) tr1 of
           (Inl err, tr') \<Rightarrow> (Inr (Some (Errorf ''unable to provide template: %w'' [] (Some err))), tr')
         | (Inr template, tr') \<Rightarrow> (Inr (Some (not_found (Id r))), tr'))"
    unfolding eq body ..
  have "snd (Apply_body e b r tr1) = snd (provideTemplate e b (Template r) tr1)"
    unfolding body by (simp split: prod.splits sum.splits)
  then show "\<exists>evs. snd (Apply_rules e b (pre @ r # rs) tr) = tr1 @ evs
                 \<and> set evs \<subseteq> set (provisioning_calls b r)"
    using provideTemplate_trace [of e b r tr1] unfolding eq by simp
next
  assume "r \<in> set (rules b) \<and> ById (workspace b) (Id r) = None"
  then have "fst (Apply e b tr) \<noteq> Inr None"
    using Apply_rules_missing_fails [of r "rules b" b e tr] by (simp add: Apply_def)
  then show "(\<exists>err. fst (Apply e b tr) = Inr (Some err)) \<or> (\<exists>p. fst (Apply e b tr) = Inl p)"
    by (cases "fst (Apply e b tr)") auto
qed


theorem Apply_missing_id_fails_witness:
  "ById (workspace book_build) (Id \<lparr>Id = ''C'', Template = ''tpl'', Name = ''out''\<rparr>) = None
   \<and> Apply quiet_env (book_build\<lparr>rules := [\<lparr>Id = ''C'', Template = ''tpl'', Name = ''out''\<rparr>]\<rparr>) []
       = (Inr (Some (not_found ''C'')), [Call_Stat ''tpl''])
   \<and> set [Call_Stat ''tpl''] \<subseteq> set (provisioning_calls book_build \<lparr>Id = ''C'', Template = ''tpl'', Name = ''out''\<rparr>)"
proof -
  let ?r = "\<lparr>Id = ''C'', Template = ''tpl'', Name = ''out''\<rparr>"
  let ?b = "book_build\<lparr>rules := [?r]\<rparr>"
  have w: "workspace ?b = workspace book_build" by simp
  have h: "ById (workspace ?b) (Id ?r) = None"
    by (simp add: book_build_def)
  have low: "strings_ToLower ''tpl'' = ''tpl''" by code_simp
  have p: "provideTemplate quiet_env ?b (Template ?r) [] = (Inr ''tpl'', [Call_Stat ''tpl''])"
    by (simp add: provideTemplate_def isUrl_def low strings_HasPrefix_def quiet_env_def)
  show ?thesis
    using h Apply_missing_id_fails [of ?b ?r quiet_env "[]" "[]" "[]" "[]"] p
    by (simp add: Apply_def provisioning_calls_def)
qed

subsection \<open>A rendering failure\<close>

lemma join_prefix_tmp: "join_prefix ''/tmp/wdydoc1'' = ''/tmp/wdydoc1/''"
  by (simp add: join_prefix_def Separator_def clean_step_def)

lemma book_buildDir:
  "transformTmpDir book_build \<lparr>Id = ''1234'', Template = ''tpl'', Name = ''mybook''\<rparr>
     = ''/tmp/wdydoc1/transform/'' @ hex_EncodeToString (Sum224 ''1234tpl'')"
  by (simp add: transformTmpDir_eq book_build_def join_prefix_tmp Separator_def)

lemma ReadTemplate_book:
  "ReadTemplate render_failure_env ''tpl''
     (transformTmpDir book_build \<lparr>Id = ''1234'', Template = ''tpl'', Name = ''mybook''\<rparr>) tr
   = ((book_template, None),
      tr @ [Call_Walk ''tpl'', Call_ParseFiles TextFlavor ''index.tmpl'' ''tpl/index.tmpl''])"
proof -
  have j: "filepath_Join [''tpl'', ''index.tmpl''] = ''tpl/index.tmpl''"
    by (simp add: filepath_Join_def filepath_Clean_def Separator_def clean_step_def)
  have base: "filepath_Base ''tpl/index.tmpl'' = ''index.tmpl''"
    by (simp add: filepath_Base_def Separator_def)
  have ext: "filepath_Ext ''index.tmpl'' = ''.tmpl''"
    by (simp add: filepath_Ext_def Separator_def)
  have low: "strings_ToLower ''.tmpl'' = ''.tmpl''" by code_simp
  have nf: "NewFile render_failure_env ''tpl/index.tmpl'' t =
     (Inr \<lparr>srcFile = ''tpl/index.tmpl'', dstFilename = ''index'',
            transformer = TextTransformer ''index.tmpl''\<rparr>,
      t @ [Call_ParseFiles TextFlavor ''index.tmpl'' ''tpl/index.tmpl''])" for t
    by (simp add: NewFile_def Let_def base ext low htmlTemplate_def textTemplate_def
          render_failure_env_def quiet_env_def)
  have wk: "filepath_Walk render_failure_env t p = WalkDir p None [WalkFile ''index.tmpl'']" for t p
    by (simp add: render_failure_env_def quiet_env_def)
  show ?thesis
    by (simp add: ReadTemplate_def ReadTemplate_walkFn_def wk book_buildDir strings_HasPrefix_def
          j nf book_template_def Let_def)
qed

text \<open>
  Claim C2. If any step of a rule fails, \<open>Apply\<close> returns a wrapped error and stops; in
  particular a rendering failure reported by \<open>Template.Build\<close> makes \<open>Apply\<close> return an error.
  The code drops the error of \<open>Template.Build\<close>: in \<open>render_failure_env\<close> the build of the
  template returns \<open>render_error\<close> and \<open>Apply\<close> still returns nil.
\<close>

theorem Apply_ignores_render_failure:
  "fst (Template_Build render_failure_env book_template (Document ''1234'' [] [] []) [])
     = Inr ([], Some render_error)
   \<and> fst (Apply render_failure_env book_build []) = Inr None"
proof -
  let ?r = "\<lparr>Id = ''1234'', Template = ''tpl'', Name = ''mybook''\<rparr>"
  let ?doc = "Document ''1234'' [] [] []"
  have tb: "fst (Template_Build render_failure_env book_template ?doc tr) = Inr ([], Some render_error)"
    for tr
    by (simp add: Template_Build_def File_Apply_def TextTransformer_Transform_def book_template_def
          render_failure_env_def quiet_env_def render_error_def Let_def split: prod.splits)
  have low: "strings_ToLower ''tpl'' = ''tpl''" by code_simp
  have p: "provideTemplate render_failure_env book_build ''tpl'' [] = (Inr ''tpl'', [Call_Stat ''tpl''])"
    by (simp add: provideTemplate_def isUrl_def low strings_HasPrefix_def
          render_failure_env_def quiet_env_def)
  have byid: "ById (workspace book_build) ''1234'' = Some ?doc"
    by (simp add: book_build_def)
  define tr1 where "tr1 = [Call_Stat ''tpl'', Call_Walk ''tpl'',
      Call_ParseFiles TextFlavor ''index.tmpl'' ''tpl/index.tmpl'']"
  have rt: "ReadTemplate render_failure_env ''tpl'' (transformTmpDir book_build ?r) [Call_Stat ''tpl'']
      = ((book_template, None), tr1)"
    by (simp add: ReadTemplate_book tr1_def)
  obtain tr2 where b: "Template_Build render_failure_env book_template ?doc tr1
      = (Inr ([], Some render_error), tr2)"
    using tb [of tr1] by (cases "Template_Build render_failure_env book_template ?doc tr1") auto
  have mk: "os_MkdirAll render_failure_env t d = None" for t d
    by (simp add: render_failure_env_def quiet_env_def)
  have "fst (Apply_body render_failure_env book_build ?r []) = Inr None"
    by (simp add: Apply_body_def p byid rt b mk Let_def)
  then have "fst (Apply_rules render_failure_env book_build [?r] []) = Inr None"
    by (cases "Apply_body render_failure_env book_build ?r []") auto
  then have "fst (Apply render_failure_env book_build []) = Inr None"
    by (simp add: Apply_def book_build_def del: Apply_rules.simps)
  with tb show ?thesis by simp
qed

section \<open>Properties of the builder operations\<close>

lemma good_edge_same_kinds:
  "same_kinds h h' \<Longrightarrow> a < length h \<Longrightarrow> good_edge h a c \<Longrightarrow> good_edge h' a c"
  by (auto simp: good_edge_def same_kinds_def)

lemma heap_inv_extend:
  assumes inv: "heap_inv h" and k: "same_kinds h h'"
    and e: "\<And>a c. a < length h' \<Longrightarrow> c \<in> set (children (h' ! a))
              \<Longrightarrow> (a < length h \<and> c \<in> set (children (h ! a))) \<or> good_edge h' a c"
  shows "heap_inv h'"
proof -
  have "h' \<noteq> []" "is_Workspace (h' ! 0)"
    using inv k by (auto simp: heap_inv_def same_kinds_def)
  moreover have "good_edge h' a c" if "a < length h'" "c \<in> set (children (h' ! a))" for a c
    using e [OF that] inv k good_edge_same_kinds [OF k] by (auto simp: heap_inv_def)
  ultimately show ?thesis by (simp add: heap_inv_def)
qed

lemma content_ref_good: "content_ref h c \<Longrightarrow> same_kinds h h' \<Longrightarrow> good_edge h' a c"
  by (auto simp: content_ref_def good_edge_def same_kinds_def)

lemma builder_step_inv:
  assumes inv: "heap_inv h" and args: "content_args h op" and step: "builder_step h op = Some (r, h')"
  shows "heap_inv h'"
proof (cases op)
  case (Op_NewDocument w)
  with step obtain f v t rs where w: "w < length h" "h ! w = WorkspaceObj f v t rs"
      and h': "h' = (h @ [DocumentObj [] [] [] []])[w := WorkspaceObj f v t (rs @ [length h])]"
    by (auto simp: Workspace_NewDocument_def load_def new_def split: if_splits object.splits)
  have k: "same_kinds h h'"
    using w by (auto simp: same_kinds_def h' nth_append nth_list_update)
  show ?thesis
  proof (rule heap_inv_extend [OF inv k])
    fix a c assume "a < length h'" "c \<in> set (children (h' ! a))"
    then show "(a < length h \<and> c \<in> set (children (h ! a))) \<or> good_edge h' a c"
      using w by (auto simp: h' nth_append nth_list_update good_edge_def split: if_splits)
  qed
next
  case (Op_Document_NewChapter d s)
  with step obtain i t as b where d: "d < length h" "h ! d = DocumentObj i t as b"
      and h': "h' = (h @ [ChapterObj s 0 []])[d := DocumentObj i t as (b @ [length h])]"
    by (auto simp: Document_NewChapter_def load_def new_def split: if_splits object.splits)
  have k: "same_kinds h h'"
    using d by (auto simp: same_kinds_def h' nth_append nth_list_update)
  show ?thesis
  proof (rule heap_inv_extend [OF inv k])
    fix a c assume "a < length h'" "c \<in> set (children (h' ! a))"
    then show "(a < length h \<and> c \<in> set (children (h ! a))) \<or> good_edge h' a c"
      using d by (auto simp: h' nth_append nth_list_update good_edge_def split: if_splits)
  qed
next
  case (Op_Document_Add d e)
  with step obtain i t as b where d: "d < length h" "h ! d = DocumentObj i t as b"
      and h': "h' = h[d := DocumentObj i t as (b @ e)]"
    by (auto simp: Document_Add_def load_def split: if_splits object.splits)
  have k: "same_kinds h h'"
    using d by (auto simp: same_kinds_def h' nth_list_update)
  show ?thesis
  proof (rule heap_inv_extend [OF inv k])
    fix a c assume "a < length h'" "c \<in> set (children (h' ! a))"
    then show "(a < length h \<and> c \<in> set (children (h ! a))) \<or> good_edge h' a c"
      using d args Op_Document_Add content_ref_good [OF _ k]
      by (auto simp: h' nth_list_update list_all_iff split: if_splits)
  qed
next
  case (Op_Chapter_Add d e)
  with step obtain t l b where d: "d < length h" "h ! d = ChapterObj t l b"
      and h': "h' = h[d := ChapterObj t l (b @ e)]"
    by (auto simp: Chapter_Add_def load_def split: if_splits object.splits)
  have k: "same_kinds h h'"
    using d by (auto simp: same_kinds_def h' nth_list_update)
  show ?thesis
  proof (rule heap_inv_extend [OF inv k])
    fix a c assume "a < length h'" "c \<in> set (children (h' ! a))"
    then show "(a < length h \<and> c \<in> set (children (h ! a))) \<or> good_edge h' a c"
      using d args Op_Chapter_Add content_ref_good [OF _ k]
      by (auto simp: h' nth_list_update list_all_iff split: if_splits)
  qed
next
  case (Op_Chapter_NewChapter d s)
  with step obtain t l b where d: "d < length h" "h ! d = ChapterObj t l b"
      and h': "h' = (h @ [ChapterObj s (wrap_int (l + 1)) []])[d := ChapterObj t l (b @ [length h])]"
    by (auto simp: Chapter_NewChapter_def load_def new_def split: if_splits object.splits)
  have k: "same_kinds h h'"
    using d by (auto simp: same_kinds_def h' nth_append nth_list_update)
  show ?thesis
  proof (rule heap_inv_extend [OF inv k])
    fix a c assume "a < length h'" "c \<in> set (children (h' ! a))"
    then show "(a < length h \<and> c \<in> set (children (h ! a))) \<or> good_edge h' a c"
      using d by (auto simp: h' nth_append nth_list_update good_edge_def split: if_splits)
  qed
next
  case (Op_Chapter_Text d s)
  with step obtain t l b where d: "d < length h" "h ! d = ChapterObj t l b"
      and h': "h' = (h @ [SpanObj s])[d := ChapterObj t l (b @ [length h])]"
    by (auto simp: Chapter_Text_def Chapter_Add_def load_def new_def nth_append valid_refs_def
          split: if_splits object.splits)
  have k: "same_kinds h h'"
    using d by (auto simp: same_kinds_def h' nth_append nth_list_update)
  show ?thesis
  proof (rule heap_inv_extend [OF inv k])
    fix a c assume "a < length h'" "c \<in> set (children (h' ! a))"
    then show "(a < length h \<and> c \<in> set (children (h ! a))) \<or> good_edge h' a c"
      using d by (auto simp: h' nth_append nth_list_update good_edge_def split: if_splits)
  qed
next
  case (Op_Text s)
  with step have h': "h' = h @ [SpanObj s]" by (simp add: new_def)
  have k: "same_kinds h h'" by (auto simp: same_kinds_def h' nth_append)
  show ?thesis
    by (rule heap_inv_extend [OF inv k]) (auto simp: h' nth_append split: if_splits)
next
  case (Op_Italic body)
  with step have h': "h' = h @ [defaultBodyObj ItalicType body]"
    by (simp add: new_defaultBody_def new_def split: if_splits)
  have k: "same_kinds h h'" by (auto simp: same_kinds_def h' nth_append)
  show ?thesis
    using args Op_Italic content_ref_good [OF _ k]
    by (intro heap_inv_extend [OF inv k]) (auto simp: h' nth_append list_all_iff split: if_splits)
next
  case (Op_Bold body)
  with step have h': "h' = h @ [defaultBodyObj BoldType body]"
    by (simp add: new_defaultBody_def new_def split: if_splits)
  have k: "same_kinds h h'" by (auto simp: same_kinds_def h' nth_append)
  show ?thesis
    using args Op_Bold content_ref_good [OF _ k]
    by (intro heap_inv_extend [OF inv k]) (auto simp: h' nth_append list_all_iff split: if_splits)
next
  case (Op_Underline body)
  with step have h': "h' = h @ [defaultBodyObj UnderlineType body]"
    by (simp add: new_defaultBody_def new_def split: if_splits)
  have k: "same_kinds h h'" by (auto simp: same_kinds_def h' nth_append)
  show ?thesis
    using args Op_Underline content_ref_good [OF _ k]
    by (intro heap_inv_extend [OF inv k]) (auto simp: h' nth_append list_all_iff split: if_splits)
next
  case (Op_TitlePage body)
  with step have h': "h' = h @ [defaultBodyObj TitlepageType body]"
    by (simp add: new_defaultBody_def new_def split: if_splits)
  have k: "same_kinds h h'" by (auto simp: same_kinds_def h' nth_append)
  show ?thesis
    using args Op_TitlePage content_ref_good [OF _ k]
    by (intro heap_inv_extend [OF inv k]) (auto simp: h' nth_append list_all_iff split: if_splits)
next
  case Op_TOC
  with step have h': "h' = h @ [defaultTypeObj TOCType]" by (simp add: new_def)
  have k: "same_kinds h h'" by (auto simp: same_kinds_def h' nth_append)
  show ?thesis
    by (rule heap_inv_extend [OF inv k]) (auto simp: h' nth_append split: if_splits)
next
  case Op_Newline
  with step have h': "h' = h @ [defaultTypeObj NewlineType]" by (simp add: new_def)
  have k: "same_kinds h h'" by (auto simp: same_kinds_def h' nth_append)
  show ?thesis
    by (rule heap_inv_extend [OF inv k]) (auto simp: h' nth_append split: if_splits)
next
  case Op_Newpage
  with step have h': "h' = h @ [defaultTypeObj NewpageType]" by (simp add: new_def)
  have k: "same_kinds h h'" by (auto simp: same_kinds_def h' nth_append)
  show ?thesis
    by (rule heap_inv_extend [OF inv k]) (auto simp: h' nth_append split: if_splits)
qed

lemma builder_run_inv:
  "heap_inv h \<Longrightarrow> content_only h ops \<Longrightarrow> builder_run h ops = Some h' \<Longrightarrow> heap_inv h'"
proof (induction ops arbitrary: h)
  case Nil
  then show ?case by simp
next
  case (Cons op ops)
  then obtain r h1 where s: "builder_step h op = Some (r, h1)"
    by (cases "builder_step h op") auto
  with Cons.prems have "heap_inv h1" "content_only h1 ops" "builder_run h1 ops = Some h'"
    using builder_step_inv by auto
  then show ?case by (rule Cons.IH)
qed

lemma wrap_int_Suc: "wrap_int (wrap_int x + 1) = wrap_int (x + 1)"
  unfolding wrap_int_def by (simp add: algebra_simps mod_simps)

lemma nested_level:
  assumes inv: "heap_inv h"
  shows "nested h c d \<Longrightarrow> c < length h \<and>
           (is_Chapter (h ! c) \<longrightarrow> Level_of (h ! c) = wrap_int (int d))
           \<and> (is_Document (h ! c) \<or> is_Workspace (h ! c) \<longrightarrow> d = 0)"
proof (induction rule: nested.induct)
  case root
  have "is_Workspace (h ! 0)" "h \<noteq> []" using inv by (auto simp: heap_inv_def)
  then show ?case by (cases "h ! 0") (auto simp: wrap_int_def)
next
  case (child a d c)
  then have g: "good_edge h a c" using inv by (auto simp: heap_inv_def)
  show ?case
  proof (cases "is_Chapter (h ! a)")
    case True
    with child.IH have "Level_of (h ! a) = wrap_int (int d)" by simp
    moreover have "\<not> is_Document (h ! a)" "\<not> is_Workspace (h ! a)"
      using True by (cases "h ! a"; simp)+
    ultimately show ?thesis
      using g True wrap_int_Suc [of "int d"] by (auto simp: good_edge_def add.commute)
  next
    case False
    then show ?thesis
      using g child.IH by (cases "h ! a") (auto simp: good_edge_def wrap_int_def)
  qed
qed

lemma wrap_int_id: "- (2 ^ 63) \<le> x \<Longrightarrow> x < 2 ^ 63 \<Longrightarrow> wrap_int x = x"
  unfolding wrap_int_def by (simp add: mod_pos_pos_trivial)

text \<open>
  Claim C9, as stated: in every tree built with the builder operations each chapter's level
  is its nesting depth. \<open>Add\<close> takes any node, also a chapter that \<open>NewChapter\<close> has made: the
  program \<open>a := doc.NewChapter("a"); b := doc.NewChapter("b"); a.Add(b)\<close> puts the chapter \<open>b\<close>
  of level 0 inside the chapter \<open>a\<close>.
\<close>

theorem builder_Add_breaks_levels:
  "builder_run new_workspace
     [Op_NewDocument 0, Op_Document_NewChapter 1 ''a'', Op_Document_NewChapter 1 ''b'',
      Op_Chapter_Add 2 [3]]
     = Some [WorkspaceObj 0 [] [] [1], DocumentObj [] [] [] [2, 3],
             ChapterObj ''a'' 0 [3], ChapterObj ''b'' 0 []]
   \<and> nested [WorkspaceObj 0 [] [] [1], DocumentObj [] [] [] [2, 3],
              ChapterObj ''a'' 0 [3], ChapterObj ''b'' 0 []] 3 1
   \<and> Level_of ([WorkspaceObj 0 [] [] [1], DocumentObj [] [] [] [2, 3],
                 ChapterObj ''a'' 0 [3], ChapterObj ''b'' 0 []] ! 3) \<noteq> int 1"
proof -
  let ?h = "[WorkspaceObj 0 [] [] [1], DocumentObj [] [] [] [2, 3],
             ChapterObj ''a'' 0 [3], ChapterObj ''b'' 0 []]"
  have run: "builder_run new_workspace
     [Op_NewDocument 0, Op_Document_NewChapter 1 ''a'', Op_Document_NewChapter 1 ''b'',
      Op_Chapter_Add 2 [3]] = Some ?h"
    by (simp add: new_workspace_def Workspace_NewDocument_def Document_NewChapter_def
          Chapter_Add_def load_def new_def valid_refs_def)
  have n1: "nested ?h 1 0"
    using nested.child [OF nested.root, of ?h 1] by simp
  have n2: "nested ?h 2 0"
    using nested.child [OF n1, of 2] by simp
  have n3: "nested ?h 3 1"
    using nested.child [OF n2, of 3] by simp
  show ?thesis using run n3 by simp
qed

text \<open>
  Claim C9, amended. \<open>Document.NewChapter\<close> makes a chapter of level 0 and
  \<open>Chapter.NewChapter\<close> one whose level is the level of its parent plus 1 (as a Go \<open>int\<close>). In
  every heap built from a new workspace by builder operations in which no \<open>Add\<close> and no
  group constructor is given a chapter, a document or a workspace, a chapter with \<open>d\<close>
  chapters above it has the level \<open>d\<close> as a Go \<open>int\<close>, which is \<open>d\<close> itself below \<open>2 ^ 63\<close>.
\<close>

theorem builder_levels:
  "(Document_NewChapter g p s = Some (chap, g') \<longrightarrow> g' ! chap = ChapterObj s 0 [])
   \<and> (Chapter_NewChapter g p s = Some (chap, g') \<longrightarrow>
        g' ! chap = ChapterObj s (wrap_int (Level_of (g ! p) + 1)) [])
   \<and> (content_only new_workspace ops \<and> builder_run new_workspace ops = Some h
        \<and> nested h c d \<and> is_Chapter (h ! c) \<longrightarrow>
        Level_of (h ! c) = wrap_int (int d) \<and> (d < 2 ^ 63 \<longrightarrow> Level_of (h ! c) = int d))"
proof (intro conjI impI)
  assume "Document_NewChapter g p s = Some (chap, g')"
  then show "g' ! chap = ChapterObj s 0 []"
    by (auto simp: Document_NewChapter_def load_def new_def split: if_splits object.splits)
next
  assume "Chapter_NewChapter g p s = Some (chap, g')"
  then show "g' ! chap = ChapterObj s (wrap_int (Level_of (g ! p) + 1)) []"
    by (auto simp: Chapter_NewChapter_def load_def new_def split: if_splits object.splits)
next
  assume a: "content_only new_workspace ops \<and> builder_run new_workspace ops = Some h
        \<and> nested h c d \<and> is_Chapter (h ! c)"
  have "heap_inv new_workspace"
    by (simp add: heap_inv_def new_workspace_def)
  with a have "heap_inv h" using builder_run_inv by blast
  from nested_level [OF this] a show l: "Level_of (h ! c) = wrap_int (int d)" by blast
  assume "d < 2 ^ 63"
  then have "int d < 2 ^ 63"
    by (metis of_nat_less_iff of_nat_numeral of_nat_power)
  then show "Level_of (h ! c) = int d"
    using l wrap_int_id [of "int d"] by simp
qed

theorem builder_levels_witness:
  "Document_NewChapter [WorkspaceObj 0 [] [] [1], DocumentObj [] [] [] []] 1 ''a''
     = Some (2, [WorkspaceObj 0 [] [] [1], DocumentObj [] [] [] [2], ChapterObj ''a'' 0 []])
   \<and> Chapter_NewChapter [WorkspaceObj 0 [] [] [1], DocumentObj [] [] [] [2], ChapterObj ''a'' 0 []] 2 ''b''
     = Some (3, [WorkspaceObj 0 [] [] [1], DocumentObj [] [] [] [2], ChapterObj ''a'' 0 [3],
                 ChapterObj ''b'' 1 []])
   \<and> builder_run new_workspace
        [Op_NewDocument 0, Op_Document_NewChapter 1 ''a'', Op_Chapter_NewChapter 2 ''b'']
     = Some [WorkspaceObj 0 [] [] [1], DocumentObj [] [] [] [2], ChapterObj ''a'' 0 [3],
             ChapterObj ''b'' 1 []]
   \<and> nested [WorkspaceObj 0 [] [] [1], DocumentObj [] [] [] [2], ChapterObj ''a'' 0 [3],
              ChapterObj ''b'' 1 []] 3 1
   \<and> Level_of ([WorkspaceObj 0 [] [] [1], DocumentObj [] [] [] [2], ChapterObj ''a'' 0 [3],
                 ChapterObj ''b'' 1 []] ! 3) = 1"
proof -
  let ?ops = "[Op_NewDocument 0, Op_Document_NewChapter 1 ''a'', Op_Chapter_NewChapter 2 ''b'']"
  let ?h = "[WorkspaceObj 0 [] [] [1], DocumentObj [] [] [] [2], ChapterObj ''a'' 0 [3],
             ChapterObj ''b'' 1 []]"
  have d: "Document_NewChapter [WorkspaceObj 0 [] [] [1], DocumentObj [] [] [] []] 1 ''a''
     = Some (2, [WorkspaceObj 0 [] [] [1], DocumentObj [] [] [] [2], ChapterObj ''a'' 0 []])"
    by (simp add: Document_NewChapter_def load_def new_def)
  have c: "Chapter_NewChapter [WorkspaceObj 0 [] [] [1], DocumentObj [] [] [] [2], ChapterObj ''a'' 0 []] 2 ''b''
     = Some (3, ?h)"
    by (simp add: Chapter_NewChapter_def load_def new_def wrap_int_def)
  have run: "builder_run new_workspace ?ops = Some ?h"
    by (simp add: new_workspace_def Workspace_NewDocument_def Document_NewChapter_def
          Chapter_NewChapter_def load_def new_def wrap_int_def)
  have ok: "content_only new_workspace ?ops"
    by (simp add: new_workspace_def Workspace_NewDocument_def Document_NewChapter_def
          Chapter_NewChapter_def load_def new_def wrap_int_def)
  have n1: "nested ?h 1 0"
    using nested.child [OF nested.root, of ?h 1] by simp
  have n2: "nested ?h 2 0"
    using nested.child [OF n1, of 2] by simp
  have n3: "nested ?h 3 1"
    using nested.child [OF n2, of 3] by simp
  show ?thesis
    using d c run ok n3
      builder_levels [where ops = ?ops and h = ?h and c = 3 and d = 1
        and g = "[WorkspaceObj 0 [] [] [1], DocumentObj [] [] [] []]" and p = 1 and s = "''a''"]
    by simp
qed

end
